theory Spec2Isabelle
  imports Complex_Main "HOL-Library.Multiset"
begin

section \<open>Numbers of the decoder\<close>

text \<open>
  Every number of \<^verbatim>\<open>blazepalm.py\<close> is a NumPy floating-point value. A value is
  modelled as a real number or one of the three special values of IEEE 754; the
  arithmetic on finite values is exact (rounding, overflow and the sign of zero are
  not modelled), and the special values follow the IEEE rules, so that a division
  by zero is a value and not an exception, as in NumPy.
\<close>

datatype fval = Fin real | PInf | NInf | NaN

fun is_fin :: "fval \<Rightarrow> bool" where
  "is_fin (Fin a) = True"
| "is_fin v = False"

text \<open>The infinity (or NaN) that a product or quotient of the given sign gives.\<close>

definition inf_of_sign :: "real \<Rightarrow> fval" where
  "inf_of_sign s = (if s = 0 then NaN else if 0 < s then PInf else NInf)"

fun sign_of :: "fval \<Rightarrow> real" where
  "sign_of (Fin a) = sgn a"
| "sign_of PInf = 1"
| "sign_of NInf = - 1"
| "sign_of NaN = 0"

instantiation fval :: "{zero, one, uminus, plus, times, divide, ord}"
begin

definition zero_fval :: fval where
  "zero_fval = Fin 0"

definition one_fval :: fval where
  "one_fval = Fin 1"

fun uminus_fval :: "fval \<Rightarrow> fval" where
  "uminus_fval (Fin a) = Fin (- a)"
| "uminus_fval PInf = NInf"
| "uminus_fval NInf = PInf"
| "uminus_fval NaN = NaN"

fun plus_fval :: "fval \<Rightarrow> fval \<Rightarrow> fval" where
  "plus_fval (Fin a) (Fin b) = Fin (a + b)"
| "plus_fval NaN v = NaN"
| "plus_fval u NaN = NaN"
| "plus_fval PInf NInf = NaN"
| "plus_fval NInf PInf = NaN"
| "plus_fval PInf v = PInf"
| "plus_fval u PInf = PInf"
| "plus_fval NInf v = NInf"
| "plus_fval u NInf = NInf"

fun times_fval :: "fval \<Rightarrow> fval \<Rightarrow> fval" where
  "times_fval (Fin a) (Fin b) = Fin (a * b)"
| "times_fval NaN v = NaN"
| "times_fval u NaN = NaN"
| "times_fval u v = inf_of_sign (sign_of u * sign_of v)"

fun divide_fval :: "fval \<Rightarrow> fval \<Rightarrow> fval" where
  "divide_fval (Fin a) (Fin b) = (if b = 0 then inf_of_sign a else Fin (a / b))"
| "divide_fval NaN v = NaN"
| "divide_fval u NaN = NaN"
| "divide_fval (Fin a) v = Fin 0"
| "divide_fval PInf (Fin b) = (if b < 0 then NInf else PInf)"
| "divide_fval NInf (Fin b) = (if b < 0 then PInf else NInf)"
| "divide_fval u v = NaN"

fun less_fval :: "fval \<Rightarrow> fval \<Rightarrow> bool" where
  "less_fval (Fin a) (Fin b) = (a < b)"
| "less_fval NaN v = False"
| "less_fval u NaN = False"
| "less_fval u NInf = False"
| "less_fval PInf v = False"
| "less_fval u v = True"

fun less_eq_fval :: "fval \<Rightarrow> fval \<Rightarrow> bool" where
  "less_eq_fval (Fin a) (Fin b) = (a \<le> b)"
| "less_eq_fval NaN v = False"
| "less_eq_fval u NaN = False"
| "less_eq_fval NInf v = True"
| "less_eq_fval u PInf = True"
| "less_eq_fval u v = False"

instance ..

end

instantiation fval :: "{minus, inverse}"
begin

definition minus_fval :: "fval \<Rightarrow> fval \<Rightarrow> fval" where
  "minus_fval u v = u + (- v)"

definition inverse_fval :: "fval \<Rightarrow> fval" where
  "inverse_fval v = divide (Fin 1) v"

instance ..

end

fun fexp :: "fval \<Rightarrow> fval" where
  "fexp (Fin a) = Fin (exp a)"
| "fexp PInf = PInf"
| "fexp NInf = Fin 0"
| "fexp NaN = NaN"

fun fsqrt :: "fval \<Rightarrow> fval" where
  "fsqrt (Fin a) = (if a < 0 then NaN else Fin (sqrt a))"
| "fsqrt PInf = PInf"
| "fsqrt NInf = NaN"
| "fsqrt NaN = NaN"

section \<open>Thresholding the confidence logits\<close>

text \<open>\<^verbatim>\<open>CONFINDENCE_THRESHOLD = 0.5\<close>\<close>

definition CONFINDENCE_THRESHOLD :: fval where
  "CONFINDENCE_THRESHOLD = Fin (1 / 2)"

text \<open>
  \<^verbatim>\<open>_sigm(x) = 1 / (1 + np.exp(-x))\<close>. The value here is the exact one; the code
  computes it in 32-bit floating point, where it is rounded and reaches exactly 1
  and exactly 0 already at large finite logits.
\<close>

definition sigm :: "fval \<Rightarrow> fval" where
  "sigm x = Fin 1 / (Fin 1 + fexp (- x))"

text \<open>One entry of \<^verbatim>\<open>detecion_mask = probabilities > CONFINDENCE_THRESHOLD\<close>.\<close>

definition passes :: "fval \<Rightarrow> bool" where
  "passes x = (CONFINDENCE_THRESHOLD < sigm x)"

section \<open>Errors, points and arrays\<close>

text \<open>
  The exceptions the decoder can end with. \<open>Raised\<close> stands for whatever an external
  collaborator (the inference engine, OpenCV, the suppression routine) raises.
\<close>

datatype error =
    AssertionError string
  | ValueError
  | IndexError
  | LinAlgError
  | Raised string

type_synonym vec2 = "fval \<times> fval"

definition vadd :: "vec2 \<Rightarrow> vec2 \<Rightarrow> vec2" where
  "vadd p q = (fst p + fst q, snd p + snd q)"

definition vsub :: "vec2 \<Rightarrow> vec2 \<Rightarrow> vec2" where
  "vsub p q = (fst p - fst q, snd p - snd q)"

definition vscale :: "vec2 \<Rightarrow> fval \<Rightarrow> vec2" where
  "vscale p c = (fst p * c, snd p * c)"

definition vdiv :: "vec2 \<Rightarrow> fval \<Rightarrow> vec2" where
  "vdiv p c = (fst p / c, snd p / c)"

text \<open>\<^verbatim>\<open>np.linalg.norm\<close> of a vector of two components.\<close>

definition linalg_norm :: "vec2 \<Rightarrow> fval" where
  "linalg_norm p = fsqrt (fst p * fst p + snd p * snd p)"

text \<open>Python's built-in \<^verbatim>\<open>max(a, b)\<close>: the first argument unless the second is greater.\<close>

definition py_max :: "fval \<Rightarrow> fval \<Rightarrow> fval" where
  "py_max a b = (if a < b then b else a)"

text \<open>Indexing a list (an array along its first axis) with a non-negative index.\<close>

definition py_index :: "'a list \<Rightarrow> nat \<Rightarrow> error + 'a" where
  "py_index xs i = (if i < length xs then Inr (xs ! i) else Inl IndexError)"

text \<open>
  Indexing with a boolean mask, \<^verbatim>\<open>xs[mask]\<close>: the rows whose mask entry is true, in
  their order; NumPy raises IndexError when the mask is not as long as the array.
\<close>

definition mask_select :: "bool list \<Rightarrow> 'a list \<Rightarrow> error + 'a list" where
  "mask_select msk xs =
     (if length msk \<noteq> length xs then Inl IndexError
      else Inr (map snd (filter fst (zip msk xs))))"

text \<open>\<^verbatim>\<open>x.reshape(-1, 2)\<close> of a flat array: ValueError when its size is odd.\<close>

fun reshape2 :: "fval list \<Rightarrow> error + vec2 list" where
  "reshape2 [] = Inr []"
| "reshape2 [x] = Inl ValueError"
| "reshape2 (x # y # r) =
     (case reshape2 r of Inl e \<Rightarrow> Inl e | Inr ps \<Rightarrow> Inr ((x, y) # ps))"

text \<open>
  An image or tensor: its shape and its values in row-major order. \<^verbatim>\<open>min()\<close> and
  \<^verbatim>\<open>max()\<close> of a NumPy array propagate NaN and raise ValueError on an array of
  size zero.
\<close>

record tensor =
  t_shape :: "nat list"
  t_data :: "fval list"

definition np_minimum :: "fval \<Rightarrow> fval \<Rightarrow> fval" where
  "np_minimum a b = (if a = NaN \<or> b = NaN then NaN else if b < a then b else a)"

definition np_maximum :: "fval \<Rightarrow> fval \<Rightarrow> fval" where
  "np_maximum a b = (if a = NaN \<or> b = NaN then NaN else if a < b then b else a)"

fun np_min :: "fval list \<Rightarrow> error + fval" where
  "np_min [] = Inl ValueError"
| "np_min (x # xs) = Inr (foldl np_minimum x xs)"

fun np_max :: "fval list \<Rightarrow> error + fval" where
  "np_max [] = Inl ValueError"
| "np_max (x # xs) = Inr (foldl np_maximum x xs)"

section \<open>The detector object\<close>

text \<open>
  One row of the regression tensor, laid out as the source documents it: columns 0 to 3
  are \<open>dx, dy, w, h\<close>, the columns from 4 on are the keypoint coordinates
  \<open>x1, y1, ..., x7, y7\<close>, kept flat as the tensor has them.
\<close>

record detection =
  reg_dx :: fval
  reg_dy :: fval
  reg_w :: fval
  reg_h :: fval
  reg_kps :: "fval list"

text \<open>
  The detector: the two constructor arguments, the anchor table (columns 0 and 1 of
  each row of the CSV file, the only ones the decoder reads) and the inference engine,
  a black box from the input tensor to the regression rows and the confidence logits
  (\<^verbatim>\<open>set_tensor\<close>, \<^verbatim>\<open>invoke\<close> and the two \<^verbatim>\<open>get_tensor\<close> calls together).
\<close>

record BlazePalm =
  box_shift :: fval
  box_enlarge :: fval
  anchors :: "vec2 list"
  interp_palm :: "tensor \<Rightarrow> error + (detection list \<times> fval list)"

text \<open>\<^verbatim>\<open>__init__(self, box_enlarge=1.5, box_shift=0.2)\<close> with its default arguments.\<close>

definition BlazePalm_init ::
  "vec2 list \<Rightarrow> (tensor \<Rightarrow> error + (detection list \<times> fval list)) \<Rightarrow> BlazePalm" where
  "BlazePalm_init anchor_table interp =
     \<lparr>box_shift = Fin (2 / 10), box_enlarge = Fin (15 / 10),
      anchors = anchor_table, interp_palm = interp\<rparr>"

text \<open>\<^verbatim>\<open>self.R90 = np.r_[[[0, 1], [-1, 0]]]\<close>, its transpose, and a row vector times a matrix.\<close>

definition R90 :: "vec2 \<times> vec2" where
  "R90 = ((Fin 0, Fin 1), (Fin (- 1), Fin 0))"

definition transpose2 :: "vec2 \<times> vec2 \<Rightarrow> vec2 \<times> vec2" where
  "transpose2 m = ((fst (fst m), fst (snd m)), (snd (fst m), snd (snd m)))"

definition vecmat :: "vec2 \<Rightarrow> vec2 \<times> vec2 \<Rightarrow> vec2" where
  "vecmat p m =
     (fst p * fst (fst m) + snd p * fst (snd m),
      fst p * snd (fst m) + snd p * snd (snd m))"

definition target_triangle :: "vec2 list" where
  "target_triangle = [(Fin 128, Fin 128), (Fin 128, Fin 0), (Fin 0, Fin 128)]"

definition target_box :: "fval list list" where
  "target_box =
     [[Fin 0, Fin 0, Fin 1], [Fin 256, Fin 0, Fin 1],
      [Fin 256, Fin 256, Fin 1], [Fin 0, Fin 256, Fin 1]]"

text \<open>
  \<^verbatim>\<open>_get_triangle(self, kp0, kp2, dist)\<close>: the division by the norm is NumPy's
  element-wise division, which raises nothing.
\<close>

definition get_triangle :: "vec2 \<Rightarrow> vec2 \<Rightarrow> fval \<Rightarrow> vec2 list" where
  "get_triangle kp0 kp2 distance =
     (let dir_v = vsub kp2 kp0;
          dir_v = vdiv dir_v (linalg_norm dir_v);
          dir_v_r = vecmat dir_v (transpose2 R90)
      in [kp2, vadd kp2 (vscale dir_v distance), vadd kp2 (vscale dir_v_r distance)])"

text \<open>\<^verbatim>\<open>_pad1(x)\<close>: a column of ones appended to a matrix.\<close>

definition pad1 :: "fval list list \<Rightarrow> fval list list" where
  "pad1 x = map (\<lambda>row. row @ [Fin 1]) x"

section \<open>Detection\<close>

type_synonym box = "fval \<times> fval \<times> fval \<times> fval"

text \<open>
  The suppression routine \<^verbatim>\<open>non_max_suppression_fast(boxes, probabilities)\<close> is
  imported from a module that is not among the sources; the decoder takes it as a
  parameter, a function from the boxes and their probabilities to the picked indices.
\<close>

type_synonym nms_fn = "box list \<Rightarrow> fval list \<Rightarrow> error + nat list"

record debug_info =
  detection_candidates :: "detection list"
  anchor_candidates :: "vec2 list"
  selected_box_id :: nat

type_synonym detect_result = "(vec2 list \<times> vec2 list \<times> debug_info) option"

text \<open>
  \<^verbatim>\<open>moved_candidate_detect[:, :2] = candidate_detect[:, :2] + candidate_anchors[:, :2] * 256\<close>
  on one row, and \<^verbatim>\<open>moved_candidate_detect[:, :4]\<close>, the boxes handed to suppression.
\<close>

definition move_candidate :: "detection \<Rightarrow> vec2 \<Rightarrow> detection" where
  "move_candidate d a =
     d\<lparr>reg_dx := reg_dx d + fst a * Fin 256, reg_dy := reg_dy d + snd a * Fin 256\<rparr>"

definition box4 :: "detection \<Rightarrow> box" where
  "box4 d = (reg_dx d, reg_dy d, reg_w d, reg_h d)"

definition moved_boxes :: "detection list \<Rightarrow> vec2 list \<Rightarrow> box list" where
  "moved_boxes candidate_detect candidate_anchors =
     map box4 (map2 move_candidate candidate_detect candidate_anchors)"

text \<open>
  Lines 151 to 174 of \<^verbatim>\<open>detect_hand\<close>: the keypoints and the source triangle of the
  candidate \<open>box_ids\<close>.
\<close>

definition decode_candidate ::
  "BlazePalm \<Rightarrow> detection list \<Rightarrow> vec2 list \<Rightarrow> nat \<Rightarrow> error + detect_result" where
  "decode_candidate self candidate_detect candidate_anchors box_ids =
     (case py_index candidate_detect box_ids of Inl e \<Rightarrow> Inl e | Inr d \<Rightarrow>
      case py_index candidate_anchors box_ids of Inl e \<Rightarrow> Inl e | Inr a \<Rightarrow>
      let center_wo_offst = vscale a (Fin 256) in
      case reshape2 (reg_kps d) of Inl e \<Rightarrow> Inl e | Inr deltas \<Rightarrow>
      let keypoints = map (vadd center_wo_offst) deltas;
          side = py_max (reg_w d) (reg_h d) * box_enlarge self in
      case py_index keypoints 0 of Inl e \<Rightarrow> Inl e | Inr kp0 \<Rightarrow>
      case py_index keypoints 2 of Inl e \<Rightarrow> Inl e | Inr kp2 \<Rightarrow>
      let source = get_triangle kp0 kp2 side;
          source = map (\<lambda>p. vsub p (vscale (vsub kp0 kp2) (box_shift self))) source
      in Inr (Some (source, keypoints,
                \<lparr>detection_candidates = candidate_detect,
                 anchor_candidates = candidate_anchors,
                 selected_box_id = box_ids\<rparr>)))"

text \<open>
  Lines 129 to 149: thresholding, the early return and suppression. The first picked
  index is the only one used.
\<close>

definition select_candidate ::
  "nms_fn \<Rightarrow> BlazePalm \<Rightarrow> detection list \<Rightarrow> fval list \<Rightarrow> error + detect_result" where
  "select_candidate nms self out_reg out_clf =
     (let probabilities = map sigm out_clf;
          detecion_mask = map (\<lambda>p. CONFINDENCE_THRESHOLD < p) probabilities in
      case mask_select detecion_mask out_reg of Inl e \<Rightarrow> Inl e | Inr candidate_detect \<Rightarrow>
      case mask_select detecion_mask (anchors self) of Inl e \<Rightarrow> Inl e | Inr candidate_anchors \<Rightarrow>
      case mask_select detecion_mask probabilities of Inl e \<Rightarrow> Inl e | Inr probabilities \<Rightarrow>
      if candidate_detect = [] then Inr None
      else
        case nms (moved_boxes candidate_detect candidate_anchors) probabilities of
          Inl e \<Rightarrow> Inl e
        | Inr box_ids \<Rightarrow>
            (case py_index box_ids 0 of Inl e \<Rightarrow> Inl e | Inr box_ids \<Rightarrow>
             decode_candidate self candidate_detect candidate_anchors box_ids))"

text \<open>
  The two assertions of \<^verbatim>\<open>detect_hand\<close>, in their order: the range of the values (which
  calls \<^verbatim>\<open>min()\<close> first and \<^verbatim>\<open>max()\<close> only when the first comparison held), then the
  shape.
\<close>

definition check_img_norm :: "tensor \<Rightarrow> error option" where
  "check_img_norm img_norm =
     (case np_min (t_data img_norm) of Inl e \<Rightarrow> Some e | Inr lo \<Rightarrow>
      case np_max (t_data img_norm) of Inl e \<Rightarrow> Some e | Inr hi \<Rightarrow>
      if \<not> (Fin (- 1) \<le> lo \<and> hi \<le> Fin 1)
      then Some (AssertionError ''img_norm should be in range [-1, 1]'')
      else if t_shape img_norm \<noteq> [256, 256, 3]
      then Some (AssertionError ''img_norm shape must be (256, 256, 3)'')
      else None)"

definition detect_hand :: "nms_fn \<Rightarrow> BlazePalm \<Rightarrow> tensor \<Rightarrow> error + detect_result" where
  "detect_hand nms self img_norm =
     (case check_img_norm img_norm of Some e \<Rightarrow> Inl e | None \<Rightarrow>
      case interp_palm self img_norm of Inl e \<Rightarrow> Inl e | Inr (out_reg, out_clf) \<Rightarrow>
      select_candidate nms self out_reg out_clf)"

section \<open>From the triangle to the box\<close>

text \<open>
  \<^verbatim>\<open>cv2.getAffineTransform(src, dst)\<close>, modelled by what it computes: the 2 by 3 matrix
  of the affine map that sends the three points of \<open>src\<close> to those of \<open>dst\<close>, as the
  solution of the linear system OpenCV sets up. Its solver leaves a matrix of zeros
  when it fails: when the system is singular (the three source points on one line)
  and when the source holds a value that is not finite (the determinant is then not
  finite either).
\<close>

fun getAffineTransform :: "vec2 list \<Rightarrow> vec2 list \<Rightarrow> error + fval list list" where
  "getAffineTransform [(x0, y0), (x1, y1), (x2, y2)] [(u0, v0), (u1, v1), (u2, v2)] =
     (let det = x0 * (y1 - y2) - y0 * (x1 - x2) + (x1 * y2 - x2 * y1) in
      if det = Fin 0 \<or> \<not> is_fin det then Inr [[Fin 0, Fin 0, Fin 0], [Fin 0, Fin 0, Fin 0]]
      else Inr
        [[(u0 * (y1 - y2) + u1 * (y2 - y0) + u2 * (y0 - y1)) / det,
          (u0 * (x2 - x1) + u1 * (x0 - x2) + u2 * (x1 - x0)) / det,
          (u0 * (x1 * y2 - x2 * y1) + u1 * (x2 * y0 - x0 * y2) + u2 * (x0 * y1 - x1 * y0)) / det],
         [(v0 * (y1 - y2) + v1 * (y2 - y0) + v2 * (y0 - y1)) / det,
          (v0 * (x2 - x1) + v1 * (x0 - x2) + v2 * (x1 - x0)) / det,
          (v0 * (x1 * y2 - x2 * y1) + v1 * (x2 * y0 - x0 * y2) + v2 * (x0 * y1 - x1 * y0)) / det]])"
| "getAffineTransform src dst = Inl (Raised ''cv2.error'')"

text \<open>
  \<^verbatim>\<open>np.linalg.inv\<close> on the 3 by 3 matrices the decoder passes: the adjugate over the
  determinant, and LinAlgError for a singular matrix (NumPy raises LinAlgError on an
  argument that is not square, too).
\<close>

fun linalg_inv :: "fval list list \<Rightarrow> error + fval list list" where
  "linalg_inv [[a, b, c], [d, e, f], [g, h, i]] =
     (let det = a * (e * i - f * h) - b * (d * i - f * g) + c * (d * h - e * g) in
      if det = Fin 0 then Inl LinAlgError
      else Inr
        [[(e * i - f * h) / det, (c * h - b * i) / det, (b * f - c * e) / det],
         [(f * g - d * i) / det, (a * i - c * g) / det, (c * d - a * f) / det],
         [(d * h - e * g) / det, (b * g - a * h) / det, (a * e - b * d) / det]])"
| "linalg_inv m = Inl LinAlgError"

text \<open>The product \<^verbatim>\<open>A @ B.T\<close>: entry \<open>(i, j)\<close> is the dot product of row \<open>i\<close> of \<open>A\<close> and row \<open>j\<close> of \<open>B\<close>.\<close>

definition dot :: "fval list \<Rightarrow> fval list \<Rightarrow> fval" where
  "dot xs ys = foldl (+) (Fin 0) (map2 (*) xs ys)"

definition matmul_T :: "fval list list \<Rightarrow> fval list list \<Rightarrow> fval list list" where
  "matmul_T A B = map (\<lambda>row. map (dot row) B) A"

text \<open>\<^verbatim>\<open>Mtr[2, :2] = 0\<close>\<close>

definition zero_row2 :: "fval list list \<Rightarrow> error + fval list list" where
  "zero_row2 m =
     (if 2 < length m
      then Inr (m[2 := map (\<lambda>v. Fin 0) (take 2 (m ! 2)) @ drop 2 (m ! 2)])
      else Inl IndexError)"

text \<open>\<^verbatim>\<open>_im_normalize(img) = 2 * ((img / 255) - 0.5)\<close>\<close>

definition im_normalize :: "tensor \<Rightarrow> tensor" where
  "im_normalize img =
     img\<lparr>t_data := map (\<lambda>v. Fin 2 * (v / Fin 255 - Fin (1 / 2))) (t_data img)\<rparr>"

text \<open>
  \<^verbatim>\<open>preprocess_img\<close>. Padding the image to a square and resizing it to 256 by 256
  (\<^verbatim>\<open>np.pad\<close> followed by \<^verbatim>\<open>cv2.resize\<close>) is image resampling by OpenCV and is taken as
  the parameter \<open>pad_resize\<close>. The pad widths are computed as the source does:
  \<^verbatim>\<open>(shape.max() - shape[:2]).astype('uint32') // 2\<close>. An array that is not
  three-dimensional fails: \<^verbatim>\<open>pad[1]\<close> does not exist for one dimension, and otherwise
  \<^verbatim>\<open>np.pad\<close> (or \<^verbatim>\<open>max()\<close> of an empty shape) raises ValueError. The padded image
  itself is not used by the caller and is left out of the result.
\<close>

definition preprocess_img ::
  "(tensor \<Rightarrow> nat \<times> nat \<Rightarrow> error + tensor) \<Rightarrow> tensor \<Rightarrow> error + (tensor \<times> nat \<times> nat)" where
  "preprocess_img pad_resize img =
     (case t_shape img of
        [hh, ww, ch] \<Rightarrow>
          (let m = max hh (max ww ch);
               pad = (((m - hh) mod 2 ^ 32) div 2, ((m - ww) mod 2 ^ 32) div 2) in
           case pad_resize img pad of Inl e \<Rightarrow> Inl e
           | Inr img_small \<Rightarrow> Inr (im_normalize img_small, pad))
      | [n] \<Rightarrow> Inl IndexError
      | _ \<Rightarrow> Inl ValueError)"

text \<open>
  Lines 196 to 208 of \<^verbatim>\<open>pred_bbox\<close>: from the source triangle to the box in the
  coordinates of the input image; \<open>pad\<close> is (rows, columns) and is subtracted reversed.
\<close>

definition project_box ::
  "vec2 list \<Rightarrow> fval \<Rightarrow> nat \<times> nat \<Rightarrow> error + fval list list" where
  "project_box source scale pad =
     (case getAffineTransform (map (\<lambda>p. vscale p scale) source) target_triangle of
        Inl e \<Rightarrow> Inl e
      | Inr Mtr \<Rightarrow>
     (case zero_row2 (transpose (pad1 (transpose Mtr))) of Inl e \<Rightarrow> Inl e | Inr Mtr \<Rightarrow>
      case linalg_inv Mtr of Inl e \<Rightarrow> Inl e | Inr Minv \<Rightarrow>
      let box_orig = map (take 2) (matmul_T target_box Minv);
          rpad = [Fin (real (snd pad)), Fin (real (fst pad))]
      in Inr (map (\<lambda>row. map2 (-) row rpad) box_orig)))"

definition pred_bbox ::
  "nms_fn \<Rightarrow> (tensor \<Rightarrow> nat \<times> nat \<Rightarrow> error + tensor) \<Rightarrow> BlazePalm \<Rightarrow> tensor \<Rightarrow>
     error + fval list list option" where
  "pred_bbox nms pad_resize self img =
     (case preprocess_img pad_resize img of Inl e \<Rightarrow> Inl e | Inr (img_norm, pad) \<Rightarrow>
      case detect_hand nms self img_norm of Inl e \<Rightarrow> Inl e
      | Inr None \<Rightarrow> Inr None
      | Inr (Some (source, keypoints, dbg)) \<Rightarrow>
          (let scale = Fin (real (foldr max (t_shape img) 0) / 256) in
           case project_box source scale pad of Inl e \<Rightarrow> Inl e
           | Inr box_orig \<Rightarrow> Inr (Some box_orig)))"

text \<open>\<^verbatim>\<open>__call__\<close>\<close>

definition call :: 
  "nms_fn \<Rightarrow> (tensor \<Rightarrow> nat \<times> nat \<Rightarrow> error + tensor) \<Rightarrow> BlazePalm \<Rightarrow> tensor \<Rightarrow>
     error + fval list list option" where
  "call nms pad_resize self img = pred_bbox nms pad_resize self img"

section \<open>Non-maximum suppression\<close>

text \<open>
  Modelled from the spec: \<^verbatim>\<open>non_max_suppression_fast\<close>, whose module
  (\<^verbatim>\<open>dependencies/non_maximum_suppression.py\<close>) is not among the sources. The spec:
  greedy suppression over the boxes ranked by probability, which repeatedly picks the
  highest-probability remaining box and suppresses any other box whose overlap ratio
  (intersection area over own area) with it exceeds a fixed overlap threshold, until
  none remain; ties are broken by descending probability, then original index. The
  spec fixes neither the threshold nor how the corners of a box follow from its four
  numbers, so the overlap ratio \<open>ov own picked\<close> and the threshold are parameters.
  A candidate is its original index, its box and its probability.
\<close>

type_synonym cand = "nat \<times> box \<times> fval"

fun pick_best :: "cand \<Rightarrow> cand list \<Rightarrow> cand" where
  "pick_best c [] = c"
| "pick_best c (d # ds) = pick_best (if snd (snd c) < snd (snd d) then d else c) ds"

definition survivors :: "(box \<Rightarrow> box \<Rightarrow> fval) \<Rightarrow> fval \<Rightarrow> cand \<Rightarrow> cand list \<Rightarrow> cand list" where
  "survivors ov thr b cs =
     filter (\<lambda>d. fst d \<noteq> fst b \<and> \<not> (thr < ov (fst (snd d)) (fst (snd b)))) cs"

lemma pick_best_in: "pick_best c ds \<in> set (c # ds)"
proof (induction ds arbitrary: c)
  case Nil
  show ?case by simp
next
  case (Cons d ds)
  have "pick_best (if snd (snd c) < snd (snd d) then d else c) ds
      \<in> set ((if snd (snd c) < snd (snd d) then d else c) # ds)"
    by (rule Cons.IH)
  then show ?case
    by (auto split: if_splits)
qed

lemma survivors_shorter:
  "length (survivors ov thr (pick_best c cs) (c # cs)) < length (c # cs)"
proof -
  have "pick_best c cs \<in> set (c # cs)"
    by (rule pick_best_in)
  moreover have "\<not> (fst (pick_best c cs) \<noteq> fst (pick_best c cs) \<and>
      \<not> (thr < ov (fst (snd (pick_best c cs))) (fst (snd (pick_best c cs)))))"
    by simp
  ultimately show ?thesis
    unfolding survivors_def by (rule length_filter_less)
qed

function greedy_nms :: "(box \<Rightarrow> box \<Rightarrow> fval) \<Rightarrow> fval \<Rightarrow> cand list \<Rightarrow> cand list" where
  "greedy_nms ov thr [] = []"
| "greedy_nms ov thr (c # cs) =
     pick_best c cs # greedy_nms ov thr (survivors ov thr (pick_best c cs) (c # cs))"
  by pat_completeness auto
termination
  by (relation "measure (\<lambda>(ov, thr, cs). length cs)") (simp_all add: survivors_shorter [simplified])

text \<open>The candidates with their original indices, and the indices of the picked ones.\<close>

definition indexed :: "box list \<Rightarrow> fval list \<Rightarrow> cand list" where
  "indexed boxes probabilities = zip [0..<length boxes] (zip boxes probabilities)"

definition non_max_suppression_fast :: "(box \<Rightarrow> box \<Rightarrow> fval) \<Rightarrow> fval \<Rightarrow> nms_fn" where
  "non_max_suppression_fast ov thr boxes probabilities =
     Inr (map fst (greedy_nms ov thr (indexed boxes probabilities)))"

text \<open>
  The original indices of the anchors whose probability exceeds the threshold, in
  ascending order: the rows a detection call keeps.
\<close>

definition passing :: "fval list \<Rightarrow> nat list" where
  "passing out_clf = filter (\<lambda>i. passes (out_clf ! i)) [0..<length out_clf]"


text \<open>
  A suppression routine cut down to its first picked index, to state that the decoder
  uses no other.
\<close>

definition first_only :: "nms_fn \<Rightarrow> nms_fn" where
  "first_only nms boxes probabilities =
     (case nms boxes probabilities of Inl e \<Rightarrow> Inl e | Inr ids \<Rightarrow> Inr (take 1 ids))"


text \<open>
  What suppression leaves of a list of candidates, each a box with its probability:
  the candidates at the picked indices, in the order they were picked, and the first
  of them, which is the one \<open>detect_hand\<close> decodes (it takes \<^verbatim>\<open>box_ids[0]\<close>).
\<close>

definition surviving_candidates ::
  "(box \<Rightarrow> box \<Rightarrow> fval) \<Rightarrow> fval \<Rightarrow> (box \<times> fval) list \<Rightarrow> (box \<times> fval) list" where
  "surviving_candidates ov thr cs =
     (case non_max_suppression_fast ov thr (map fst cs) (map snd cs) of
        Inr ids \<Rightarrow> map (\<lambda>i. cs ! i) ids
      | Inl e \<Rightarrow> [])"

definition selected_candidate ::
  "(box \<Rightarrow> box \<Rightarrow> fval) \<Rightarrow> fval \<Rightarrow> (box \<times> fval) list \<Rightarrow> (box \<times> fval) option" where
  "selected_candidate ov thr cs =
     (case surviving_candidates ov thr cs of [] \<Rightarrow> None | c # rest \<Rightarrow> Some c)"

text \<open>
  A point of the padded image in the coordinates of the input image: the padding,
  given as (rows, columns), is taken off. The corners of the canonical square are
  those of \<open>target_box\<close>.
\<close>

definition to_input :: "nat \<times> nat \<Rightarrow> real \<times> real \<Rightarrow> fval list" where
  "to_input pad p = [Fin (fst p - real (snd pad)), Fin (snd p - real (fst pad))]"

definition canonical_corners :: "(real \<times> real) list" where
  "canonical_corners = [(0, 0), (256, 0), (256, 256), (0, 256)]"

section \<open>Affine maps over the reals\<close>

text \<open>
  The vocabulary in which the geometry of \<open>pred_bbox\<close> is stated: an affine map of
  the plane with rows \<open>(a, b, c)\<close> and \<open>(d, e, f)\<close>, its 3 by 3 matrix, a point in
  homogeneous coordinates, and the determinant that is zero exactly when three points
  lie on one line.
\<close>

type_synonym affine = "real \<times> real \<times> real \<times> real \<times> real \<times> real"

fun affine_apply :: "affine \<Rightarrow> real \<times> real \<Rightarrow> real \<times> real" where
  "affine_apply (a, b, c, d, e, f) (x, y) = (a * x + b * y + c, d * x + e * y + f)"

fun affine_inverse :: "affine \<Rightarrow> affine" where
  "affine_inverse (a, b, c, d, e, f) =
     (e / (a * e - b * d), - b / (a * e - b * d), (b * f - c * e) / (a * e - b * d),
      - d / (a * e - b * d), a / (a * e - b * d), (c * d - a * f) / (a * e - b * d))"

fun affine_rows :: "affine \<Rightarrow> fval list list" where
  "affine_rows (a, b, c, d, e, f) =
     [[Fin a, Fin b, Fin c], [Fin d, Fin e, Fin f], [Fin 0, Fin 0, Fin 1]]"

definition embed :: "real \<times> real \<Rightarrow> fval list" where
  "embed p = [Fin (fst p), Fin (snd p), Fin 1]"

text \<open>The solution of the system of \<open>getAffineTransform\<close> over the reals.\<close>

definition tri_det :: "real \<times> real \<Rightarrow> real \<times> real \<Rightarrow> real \<times> real \<Rightarrow> real" where
  "tri_det p0 p1 p2 =
     fst p0 * (snd p1 - snd p2) - snd p0 * (fst p1 - fst p2) + (fst p1 * snd p2 - fst p2 * snd p1)"

definition affine_solve ::
  "(real \<times> real) list \<Rightarrow> (real \<times> real) list \<Rightarrow> affine" where
  "affine_solve src dst =
     (case (src, dst) of
        ([(x0, y0), (x1, y1), (x2, y2)], [(u0, v0), (u1, v1), (u2, v2)]) \<Rightarrow>
          (let det = tri_det (x0, y0) (x1, y1) (x2, y2) in
           ((u0 * (y1 - y2) + u1 * (y2 - y0) + u2 * (y0 - y1)) / det,
            (u0 * (x2 - x1) + u1 * (x0 - x2) + u2 * (x1 - x0)) / det,
            (u0 * (x1 * y2 - x2 * y1) + u1 * (x2 * y0 - x0 * y2) + u2 * (x0 * y1 - x1 * y0)) / det,
            (v0 * (y1 - y2) + v1 * (y2 - y0) + v2 * (y0 - y1)) / det,
            (v0 * (x2 - x1) + v1 * (x0 - x2) + v2 * (x1 - x0)) / det,
            (v0 * (x1 * y2 - x2 * y1) + v1 * (x2 * y0 - x0 * y2) + v2 * (x0 * y1 - x1 * y0)) / det))
      | _ \<Rightarrow> (0, 0, 0, 0, 0, 0))"

fun affine_det :: "affine \<Rightarrow> real" where
  "affine_det (a, b, c, d, e, f) = a * e - b * d"


section \<open>Example inputs\<close>

text \<open>
  A detector with one anchor at the centre of the image, whose engine reports one
  candidate of width 10 and height 20 with the given confidence logit; its wrist
  keypoint is at the anchor and its middle-finger keypoint one pixel below.
\<close>

definition example_row :: detection where
  "example_row =
     \<lparr>reg_dx = Fin 1, reg_dy = Fin 2, reg_w = Fin 10, reg_h = Fin 20,
      reg_kps = [Fin 0, Fin 0, Fin 5, Fin 5, Fin 0, Fin 1, Fin 3, Fin 3,
                 Fin 4, Fin 4, Fin 6, Fin 6, Fin 7, Fin 7]\<rparr>"

definition example_detector :: "fval \<Rightarrow> BlazePalm" where
  "example_detector logit =
     BlazePalm_init [(Fin (1 / 2), Fin (1 / 2))] (\<lambda>img_norm. Inr ([example_row], [logit]))"

definition example_tensor :: tensor where
  "example_tensor = \<lparr>t_shape = [256, 256, 3], t_data = replicate (256 * 256 * 3) (Fin 0)\<rparr>"

definition example_image :: tensor where
  "example_image = \<lparr>t_shape = [512, 512, 3], t_data = replicate (512 * 512 * 3) (Fin (255 / 2))\<rparr>"

text \<open>A resampling that gives every pixel of the small image the value 127.5.\<close>

definition example_resize :: "tensor \<Rightarrow> nat \<times> nat \<Rightarrow> error + tensor" where
  "example_resize img pad =
     Inr \<lparr>t_shape = [256, 256, 3], t_data = replicate (256 * 256 * 3) (Fin (255 / 2))\<rparr>"

definition example_nms :: nms_fn where
  "example_nms = non_max_suppression_fast (\<lambda>own picked. Fin 0) (Fin (3 / 10))"

text \<open>The same candidate with its middle-finger keypoint on its wrist keypoint.\<close>

definition degenerate_row :: detection where
  "degenerate_row =
     \<lparr>reg_dx = Fin 1, reg_dy = Fin 2, reg_w = Fin 10, reg_h = Fin 20,
      reg_kps = [Fin 0, Fin 0, Fin 5, Fin 5, Fin 0, Fin 0, Fin 3, Fin 3,
                 Fin 4, Fin 4, Fin 6, Fin 6, Fin 7, Fin 7]\<rparr>"

definition degenerate_detector :: BlazePalm where
  "degenerate_detector =
     BlazePalm_init [(Fin (1 / 2), Fin (1 / 2))] (\<lambda>img_norm. Inr ([degenerate_row], [Fin 1]))"


text \<open>
  An image twice as wide as high, and a detector with two anchors whose engine reports
  two candidates above the threshold, the first with the higher confidence.
\<close>

definition example_wide_image :: tensor where
  "example_wide_image =
     \<lparr>t_shape = [256, 512, 3], t_data = replicate (256 * 512 * 3) (Fin (255 / 2))\<rparr>"

definition example_pair_detector :: BlazePalm where
  "example_pair_detector =
     BlazePalm_init [(Fin (1 / 2), Fin (1 / 2)), (Fin (1 / 4), Fin (1 / 4))]
       (\<lambda>img_norm. Inr ([example_row, example_row], [Fin 2, Fin 1]))"


section \<open>Arithmetic of finite values\<close>

lemma minus_Fin [simp]: "Fin a - Fin b = Fin (a - b)"
  by (simp add: minus_fval_def)

lemma divide_Fin [simp]: "b \<noteq> 0 \<Longrightarrow> Fin a / Fin b = Fin (a / b)"
  by simp

lemma plus_NaN [simp]: "u + NaN = NaN"
  by (cases u) simp_all

lemma minus_NaN [simp]: "NaN - v = NaN" "u - NaN = NaN"
  by (simp_all add: minus_fval_def)


section \<open>Properties of the threshold\<close>

lemma sigm_Fin: "sigm (Fin x) = Fin (1 / (1 + exp (- x)))"
proof -
  have "1 + exp (- x) \<noteq> 0"
    using exp_gt_zero [of "- x"] by linarith
  then show ?thesis
    by (simp add: sigm_def)
qed

lemma sigm_PInf: "sigm PInf = Fin 1"
  by (simp add: sigm_def)

lemma sigm_NInf: "sigm NInf = Fin 0"
  by (simp add: sigm_def)

lemma sigm_NaN: "sigm NaN = NaN"
  by (simp add: sigm_def)

lemma passes_Fin: "passes (Fin x) = (0 < x)"
proof -
  have pos: "0 < 1 + exp (- x)"
    using exp_gt_zero [of "- x"] by linarith
  have "(1 / 2 < 1 / (1 + exp (- x))) = (1 + exp (- x) < 2)"
    using pos by (simp add: field_simps)
  also have "\<dots> = (exp (- x) < exp 0)"
    by auto
  also have "\<dots> = (0 < x)"
    by (simp only: exp_less_cancel_iff) auto
  finally show ?thesis
    by (simp add: passes_def CONFINDENCE_THRESHOLD_def sigm_Fin)
qed

lemma passes_special: "passes PInf" "\<not> passes NInf" "\<not> passes NaN"
  by (simp_all add: passes_def CONFINDENCE_THRESHOLD_def sigm_PInf sigm_NInf sigm_NaN)

lemma sigm_closed_bounds: "x \<noteq> NaN \<Longrightarrow> Fin 0 \<le> sigm x \<and> sigm x \<le> Fin 1"
proof (cases x)
  case (Fin a)
  have pos: "0 < exp (- a)"
    by simp
  then show ?thesis
    by (simp add: Fin sigm_Fin field_simps add_pos_pos)
next
  case PInf
  then show ?thesis by (simp add: sigm_PInf)
next
  case NInf
  then show ?thesis by (simp add: sigm_NInf)
next
  case NaN
  moreover assume "x \<noteq> NaN"
  ultimately show ?thesis by simp
qed

lemma passes_mono: "a \<le> b \<Longrightarrow> passes a \<Longrightarrow> passes b"
proof -
  assume le: "a \<le> b" and pa: "passes a"
  show "passes b"
  proof (cases a)
    case (Fin x)
    with pa have x: "0 < x"
      by (simp add: passes_Fin)
    show ?thesis
    proof (cases b)
      case (Fin y)
      with le \<open>a = Fin x\<close> have "x \<le> y"
        by simp
      with x show ?thesis
        by (simp add: Fin passes_Fin)
    next
      case PInf
      then show ?thesis
        by (simp add: passes_special)
    next
      case NInf
      with le \<open>a = Fin x\<close> show ?thesis
        by simp
    next
      case NaN
      with le \<open>a = Fin x\<close> show ?thesis
        by simp
    qed
  next
    case PInf
    with le have "b = PInf"
      by (cases b) simp_all
    then show ?thesis
      by (simp add: passes_special)
  next
    case NInf
    with pa show ?thesis
      by (simp add: passes_special)
  next
    case NaN
    with pa show ?thesis
      by (simp add: passes_special)
  qed
qed

text \<open>
  C7, amended. For every confidence logit that is not NaN the probability lies in the
  closed interval from 0 to 1, and the filter \<open>probability > 0.5\<close> is monotonic in the
  logit: when a logit passes, every logit that is at least as large passes too.
\<close>

theorem sigm_in_unit_interval_and_threshold_monotone:
  "(\<forall>x. x \<noteq> NaN \<longrightarrow> Fin 0 \<le> sigm x \<and> sigm x \<le> Fin 1) \<and>
   (\<forall>a b. a \<le> b \<longrightarrow> passes a \<longrightarrow> passes b)"
  using sigm_closed_bounds passes_mono by blast

theorem sigm_in_unit_interval_and_threshold_monotone_witness:
  "PInf \<noteq> NaN \<and> Fin 0 \<le> sigm PInf \<and> sigm PInf \<le> Fin 1 \<and>
   Fin 1 \<le> Fin 2 \<and> passes (Fin 1) \<and> passes (Fin 2)"
proof -
  have ne: "PInf \<noteq> NaN"
    by simp
  have le: "Fin 1 \<le> Fin 2"
    by simp
  have p1: "passes (Fin 1)"
    by (simp add: passes_Fin)
  from sigm_in_unit_interval_and_threshold_monotone ne
  have b: "Fin 0 \<le> sigm PInf \<and> sigm PInf \<le> Fin 1"
    by blast
  from sigm_in_unit_interval_and_threshold_monotone le p1 have "passes (Fin 2)"
    by blast
  with ne b le p1 show ?thesis
    by blast
qed

text \<open>
  C7 as stated fails: the probability is not strictly inside the interval for every
  logit. It is exactly 1 at the logit \<open>+inf\<close> and exactly 0 at \<open>-inf\<close>, both values a
  32-bit float can hold. (In the code's 32-bit arithmetic the same happens at large
  finite logits, which the exact arithmetic of this theory does not show.)
\<close>

theorem sigm_reaches_the_bounds:
  "\<not> (Fin 0 < sigm PInf \<and> sigm PInf < Fin 1) \<and> \<not> (Fin 0 < sigm NInf \<and> sigm NInf < Fin 1)"
  by (simp add: sigm_PInf sigm_NInf)

section \<open>Properties of the input check\<close>

lemma le_np_minimum: "(Fin c \<le> np_minimum a b) = (Fin c \<le> a \<and> Fin c \<le> b)"
  by (cases a; cases b) (auto simp: np_minimum_def)

lemma np_maximum_le: "(np_maximum a b \<le> Fin c) = (a \<le> Fin c \<and> b \<le> Fin c)"
  by (cases a; cases b) (auto simp: np_maximum_def)

lemma le_foldl_np_minimum:
  "(Fin c \<le> foldl np_minimum x xs) = (Fin c \<le> x \<and> (\<forall>v\<in>set xs. Fin c \<le> v))"
  by (induction xs arbitrary: x) (auto simp: le_np_minimum)

lemma foldl_np_maximum_le:
  "(foldl np_maximum x xs \<le> Fin c) = (x \<le> Fin c \<and> (\<forall>v\<in>set xs. v \<le> Fin c))"
  by (induction xs arbitrary: x) (auto simp: np_maximum_le)

lemma check_img_norm_cases:
  "check_img_norm img =
     (if t_data img = [] then Some ValueError
      else if \<not> (\<forall>v\<in>set (t_data img). Fin (- 1) \<le> v \<and> v \<le> Fin 1)
      then Some (AssertionError ''img_norm should be in range [-1, 1]'')
      else if t_shape img \<noteq> [256, 256, 3]
      then Some (AssertionError ''img_norm shape must be (256, 256, 3)'')
      else None)"
  by (cases "t_data img")
    (auto simp: check_img_norm_def le_foldl_np_minimum foldl_np_maximum_le)

text \<open>
  C9. A tensor whose shape is not (256, 256, 3), or one of whose values is not in
  [-1, 1], makes \<open>detect_hand\<close> fail before the inference engine is invoked: the
  failure is the same whatever the engine and the suppression routine are. It is the
  assertion on the range when a value is out of range, the assertion on the shape
  otherwise, and NumPy's ValueError (raised by \<open>min()\<close> inside the first assertion)
  when the tensor has no values at all.
\<close>

theorem detect_hand_rejects_malformed_input:
  assumes "t_shape img \<noteq> [256, 256, 3] \<or>
    (\<exists>v\<in>set (t_data img). \<not> (Fin (- 1) \<le> v \<and> v \<le> Fin 1))"
  shows "\<exists>e. (\<forall>nms self. detect_hand nms self img = Inl e) \<and>
     e = (if t_data img = [] then ValueError
          else if \<exists>v\<in>set (t_data img). \<not> (Fin (- 1) \<le> v \<and> v \<le> Fin 1)
          then AssertionError ''img_norm should be in range [-1, 1]''
          else AssertionError ''img_norm shape must be (256, 256, 3)'')"
  using assms by (auto simp: detect_hand_def check_img_norm_cases)

theorem detect_hand_rejects_malformed_input_witness:
  "(\<forall>nms self. detect_hand nms self \<lparr>t_shape = [1, 1, 1], t_data = [Fin 5]\<rparr>
      = Inl (AssertionError ''img_norm should be in range [-1, 1]'')) \<and>
   (\<forall>nms self. detect_hand nms self \<lparr>t_shape = [1, 1, 1], t_data = [Fin 0]\<rparr>
      = Inl (AssertionError ''img_norm shape must be (256, 256, 3)''))"
  using detect_hand_rejects_malformed_input [of "\<lparr>t_shape = [1, 1, 1], t_data = [Fin 5]\<rparr>"]
    detect_hand_rejects_malformed_input [of "\<lparr>t_shape = [1, 1, 1], t_data = [Fin 0]\<rparr>"]
  by simp

section \<open>Properties of the filtering\<close>

lemma filter_upt_Suc:
  "filter P [0..<Suc n] = (if P 0 then [0] else []) @ map Suc (filter (\<lambda>i. P (Suc i)) [0..<n])"
proof -
  have "[0..<Suc n] = 0 # map Suc [0..<n]"
    by (simp add: upt_conv_Cons map_Suc_upt del: upt_Suc)
  then show ?thesis
    by (simp add: filter_map comp_def del: upt_Suc)
qed

lemma mask_rows:
  "length msk = length xs \<Longrightarrow>
   map snd (filter fst (zip msk xs)) = map (\<lambda>i. xs ! i) (filter (\<lambda>i. msk ! i) [0..<length xs])"
proof (induction msk xs rule: list_induct2)
  case Nil
  show ?case by simp
next
  case (Cons m ms x xs)
  show ?case
    using Cons.IH by (simp add: filter_upt_Suc comp_def del: upt_Suc)
qed

lemma mask_select_rows:
  "mask_select msk xs = Inr ys \<Longrightarrow>
   length msk = length xs \<and> ys = map (\<lambda>i. xs ! i) (filter (\<lambda>i. msk ! i) [0..<length xs])"
  by (auto simp: mask_select_def mask_rows split: if_splits)

lemma mask_select_all_false:
  "length msk = length xs \<Longrightarrow> \<forall>m\<in>set msk. \<not> m \<Longrightarrow> mask_select msk xs = Inr []"
  by (auto simp: mask_select_def filter_empty_conv dest: set_zip_leftD)

lemma select_candidate_none:
  assumes len: "length out_reg = length out_clf" "length (anchors self) = length out_clf"
    and low: "\<forall>x\<in>set out_clf. \<not> passes x"
  shows "select_candidate nms self out_reg out_clf = Inr None"
proof -
  let ?msk = "map (\<lambda>p. CONFINDENCE_THRESHOLD < p) (map sigm out_clf)"
  have f: "\<forall>m\<in>set ?msk. \<not> m"
    using low by (auto simp: passes_def)
  have "mask_select ?msk out_reg = Inr []"
    using len f by (intro mask_select_all_false) simp_all
  moreover have "mask_select ?msk (anchors self) = Inr []"
    using len f by (intro mask_select_all_false) simp_all
  moreover have "mask_select ?msk (map sigm out_clf) = Inr []"
    using f by (intro mask_select_all_false) simp_all
  ultimately show ?thesis
    by (simp add: select_candidate_def)
qed

lemma example_tensor_ok: "check_img_norm example_tensor = None"
  by (simp add: check_img_norm_cases example_tensor_def)

lemma example_preprocess:
  "preprocess_img example_resize example_image = Inr (example_tensor, (0, 0))"
  by (simp add: preprocess_img_def example_resize_def example_image_def example_tensor_def
      im_normalize_def)

text \<open>
  C1. When the input passes the assertions, the engine's outputs and the anchor table
  have the same number of rows and no anchor's probability exceeds 0.5, then
  \<open>detect_hand\<close>, \<open>pred_bbox\<close> and \<open>__call__\<close> return the "no detection" value. They do
  so whatever the suppression routine is (also one that raises) and whatever the two
  geometry parameters are: neither suppression nor the geometry is reached.
\<close>

theorem no_candidate_no_detection:
  assumes "preprocess_img pad_resize img = Inr (img_norm, pad)"
    and "check_img_norm img_norm = None"
    and "interp_palm self img_norm = Inr (out_reg, out_clf)"
    and "length out_reg = length out_clf"
    and "length (anchors self) = length out_clf"
    and "\<forall>x\<in>set out_clf. \<not> passes x"
  shows "\<forall>nms shift enlarge.
    detect_hand nms (self\<lparr>box_shift := shift, box_enlarge := enlarge\<rparr>) img_norm = Inr None \<and>
    pred_bbox nms pad_resize (self\<lparr>box_shift := shift, box_enlarge := enlarge\<rparr>) img = Inr None \<and>
    call nms pad_resize (self\<lparr>box_shift := shift, box_enlarge := enlarge\<rparr>) img = Inr None"
proof (intro allI)
  fix nms shift enlarge
  let ?self = "self\<lparr>box_shift := shift, box_enlarge := enlarge\<rparr>"
  have "select_candidate nms ?self out_reg out_clf = Inr None"
    using assms(4-6) by (intro select_candidate_none) simp_all
  then have d: "detect_hand nms ?self img_norm = Inr None"
    using assms(2,3) by (simp add: detect_hand_def)
  then show "detect_hand nms ?self img_norm = Inr None \<and>
    pred_bbox nms pad_resize ?self img = Inr None \<and>
    call nms pad_resize ?self img = Inr None"
    using assms(1) by (simp add: pred_bbox_def call_def)
qed

theorem no_candidate_no_detection_witness:
  "\<forall>nms. detect_hand nms (example_detector (Fin (- 10))) example_tensor = Inr None \<and>
     pred_bbox nms example_resize (example_detector (Fin (- 10))) example_image = Inr None \<and>
     call nms example_resize (example_detector (Fin (- 10))) example_image = Inr None"
proof
  fix nms
  have "\<forall>x\<in>set [Fin (- 10)]. \<not> passes x"
    by (simp add: passes_Fin)
  from no_candidate_no_detection [OF example_preprocess example_tensor_ok _ _ _ this,
      of "example_detector (Fin (- 10))" "[example_row]"]
  have "\<forall>nms shift enlarge.
    detect_hand nms (example_detector (Fin (- 10))\<lparr>box_shift := shift, box_enlarge := enlarge\<rparr>)
      example_tensor = Inr None \<and>
    pred_bbox nms example_resize
      (example_detector (Fin (- 10))\<lparr>box_shift := shift, box_enlarge := enlarge\<rparr>)
      example_image = Inr None \<and>
    call nms example_resize
      (example_detector (Fin (- 10))\<lparr>box_shift := shift, box_enlarge := enlarge\<rparr>)
      example_image = Inr None"
    by (simp add: example_detector_def BlazePalm_init_def)
  then have "detect_hand nms
      (example_detector (Fin (- 10))\<lparr>box_shift := Fin (2 / 10), box_enlarge := Fin (15 / 10)\<rparr>)
      example_tensor = Inr None \<and>
    pred_bbox nms example_resize
      (example_detector (Fin (- 10))\<lparr>box_shift := Fin (2 / 10), box_enlarge := Fin (15 / 10)\<rparr>)
      example_image = Inr None \<and>
    call nms example_resize
      (example_detector (Fin (- 10))\<lparr>box_shift := Fin (2 / 10), box_enlarge := Fin (15 / 10)\<rparr>)
      example_image = Inr None"
    by blast
  then show "detect_hand nms (example_detector (Fin (- 10))) example_tensor = Inr None \<and>
     pred_bbox nms example_resize (example_detector (Fin (- 10))) example_image = Inr None \<and>
     call nms example_resize (example_detector (Fin (- 10))) example_image = Inr None"
    by (simp add: example_detector_def BlazePalm_init_def)
qed

section \<open>Properties of a detection\<close>

lemma py_index_0: "py_index xs 0 = Inr x \<Longrightarrow> \<exists>ys. xs = x # ys"
  by (cases xs) (auto simp: py_index_def)

lemma threshold_mask_rows:
  assumes "mask_select (map (\<lambda>p. CONFINDENCE_THRESHOLD < p) (map sigm out_clf)) xs = Inr ys"
  shows "length xs = length out_clf \<and> ys = map (\<lambda>i. xs ! i) (passing out_clf)"
proof -
  let ?msk = "map (\<lambda>p. CONFINDENCE_THRESHOLD < p) (map sigm out_clf)"
  from mask_select_rows [OF assms]
  have len: "length out_clf = length xs"
    and ys: "ys = map (\<lambda>i. xs ! i) (filter (\<lambda>i. ?msk ! i) [0..<length xs])"
    by simp_all
  have "filter (\<lambda>i. ?msk ! i) [0..<length xs] = passing out_clf"
    unfolding passing_def len [symmetric]
    by (rule filter_cong) (simp_all add: passes_def)
  with len ys show ?thesis
    by simp
qed

lemma select_candidate_Some:
  assumes "select_candidate nms self out_reg out_clf = Inr (Some r)"
  shows "length out_reg = length out_clf \<and> length (anchors self) = length out_clf \<and>
    (\<exists>sel ids.
      nms (moved_boxes (map (\<lambda>i. out_reg ! i) (passing out_clf))
                       (map (\<lambda>i. anchors self ! i) (passing out_clf)))
          (map (\<lambda>i. sigm (out_clf ! i)) (passing out_clf)) = Inr (sel # ids) \<and>
      decode_candidate self (map (\<lambda>i. out_reg ! i) (passing out_clf))
        (map (\<lambda>i. anchors self ! i) (passing out_clf)) sel = Inr (Some r))"
proof -
  let ?msk = "map (\<lambda>p. CONFINDENCE_THRESHOLD < p) (map sigm out_clf)"
  from assms obtain cd ca pr box_ids sel where
    cd: "mask_select ?msk out_reg = Inr cd" and
    ca: "mask_select ?msk (anchors self) = Inr ca" and
    pr: "mask_select ?msk (map sigm out_clf) = Inr pr" and
    n: "nms (moved_boxes cd ca) pr = Inr box_ids" and
    s: "py_index box_ids 0 = Inr sel" and
    d: "decode_candidate self cd ca sel = Inr (Some r)"
    by (auto simp: select_candidate_def Let_def split: sum.splits if_splits)
  from threshold_mask_rows [OF cd] threshold_mask_rows [OF ca] threshold_mask_rows [OF pr]
  have "length out_reg = length out_clf" "length (anchors self) = length out_clf"
    "cd = map (\<lambda>i. out_reg ! i) (passing out_clf)"
    "ca = map (\<lambda>i. anchors self ! i) (passing out_clf)"
    "pr = map (\<lambda>i. map sigm out_clf ! i) (passing out_clf)"
    by simp_all
  moreover have "map (\<lambda>i. map sigm out_clf ! i) (passing out_clf)
      = map (\<lambda>i. sigm (out_clf ! i)) (passing out_clf)"
    by (rule map_cong) (simp_all add: passing_def)
  moreover from py_index_0 [OF s] obtain ids where "box_ids = sel # ids" ..
  ultimately show ?thesis
    using n d by auto
qed

lemma decode_candidate_Some:
  assumes "decode_candidate self cd ca sel = Inr (Some (source, keypoints, dbg))"
  shows "sel < length cd \<and> sel < length ca \<and>
    dbg = \<lparr>detection_candidates = cd, anchor_candidates = ca, selected_box_id = sel\<rparr> \<and>
    (\<exists>deltas. reshape2 (reg_kps (cd ! sel)) = Inr deltas \<and>
       keypoints = map (vadd (vscale (ca ! sel) (Fin 256))) deltas \<and>
       2 < length keypoints \<and>
       source = map (\<lambda>p. vsub p (vscale (vsub (keypoints ! 0) (keypoints ! 2)) (box_shift self)))
          (get_triangle (keypoints ! 0) (keypoints ! 2)
             (py_max (reg_w (cd ! sel)) (reg_h (cd ! sel)) * box_enlarge self)))"
  using assms
  by (auto simp: decode_candidate_def py_index_def Let_def split: sum.splits if_splits)

lemma reshape2_pairs:
  "reshape2 xs = Inr ps \<Longrightarrow>
   length xs = 2 * length ps \<and> (\<forall>k<length ps. ps ! k = (xs ! (2 * k), xs ! (2 * k + 1)))"
proof (induction xs arbitrary: ps rule: reshape2.induct)
  case 1
  then show ?case by simp
next
  case (2 x)
  then show ?case by simp
next
  case (3 x y r)
  from "3.prems" obtain qs where qs: "reshape2 r = Inr qs" and ps: "ps = (x, y) # qs"
    by (auto split: sum.splits)
  from "3.IH" [OF qs] have len: "length r = 2 * length qs"
    and nth: "\<forall>k<length qs. qs ! k = (r ! (2 * k), r ! (2 * k + 1))"
    by simp_all
  have "\<forall>k<length ps. ps ! k = ((x # y # r) ! (2 * k), (x # y # r) ! (2 * k + 1))"
  proof (intro allI impI)
    fix k
    assume k: "k < length ps"
    show "ps ! k = ((x # y # r) ! (2 * k), (x # y # r) ! (2 * k + 1))"
    proof (cases k)
      case 0
      then show ?thesis by (simp add: ps)
    next
      case (Suc j)
      with k ps have "j < length qs" by simp
      with nth have "qs ! j = (r ! (2 * j), r ! (2 * j + 1))" by simp
      then show ?thesis by (simp add: ps Suc)
    qed
  qed
  with len ps show ?case by simp
qed

lemma moved_boxes_nth:
  assumes "length ca = length cd" "j < length cd"
  shows "moved_boxes cd ca ! j =
     (reg_dx (cd ! j) + fst (ca ! j) * Fin 256, reg_dy (cd ! j) + snd (ca ! j) * Fin 256,
      reg_w (cd ! j), reg_h (cd ! j))"
  using assms by (simp add: moved_boxes_def box4_def move_candidate_def)

text \<open>
  C10. When \<open>detect_hand\<close> returns a detection, the candidate detections, the candidate
  anchors and the probabilities handed to suppression are the rows of the engine's
  output, of the anchor table and of the probabilities at the same original indices
  \<open>passing out_clf\<close>, row by row; the selected box id recorded in the debug info is
  the first index suppression returned and is a valid index into these lists; and the
  keypoints are the deltas of exactly that row, moved by that row's anchor.
\<close>

theorem filtered_rows_share_anchor_index:
  assumes "interp_palm self img_norm = Inr (out_reg, out_clf)"
    and "detect_hand nms self img_norm = Inr (Some (source, keypoints, dbg))"
  shows "length out_reg = length out_clf \<and> length (anchors self) = length out_clf \<and>
    detection_candidates dbg = map (\<lambda>i. out_reg ! i) (passing out_clf) \<and>
    anchor_candidates dbg = map (\<lambda>i. anchors self ! i) (passing out_clf) \<and>
    (\<exists>ids. nms (moved_boxes (detection_candidates dbg) (anchor_candidates dbg))
              (map (\<lambda>i. sigm (out_clf ! i)) (passing out_clf))
            = Inr (selected_box_id dbg # ids)) \<and>
    selected_box_id dbg < length (passing out_clf) \<and>
    (\<exists>deltas. reshape2 (reg_kps (out_reg ! (passing out_clf ! selected_box_id dbg))) = Inr deltas \<and>
       keypoints =
         map (vadd (vscale (anchors self ! (passing out_clf ! selected_box_id dbg)) (Fin 256)))
           deltas)"
proof -
  from assms have sc: "select_candidate nms self out_reg out_clf
      = Inr (Some (source, keypoints, dbg))"
    by (simp add: detect_hand_def split: option.splits)
  let ?cd = "map (\<lambda>i. out_reg ! i) (passing out_clf)"
  let ?ca = "map (\<lambda>i. anchors self ! i) (passing out_clf)"
  from select_candidate_Some [OF sc] obtain sel ids where
    len: "length out_reg = length out_clf" "length (anchors self) = length out_clf" and
    n: "nms (moved_boxes ?cd ?ca) (map (\<lambda>i. sigm (out_clf ! i)) (passing out_clf))
       = Inr (sel # ids)" and
    d: "decode_candidate self ?cd ?ca sel = Inr (Some (source, keypoints, dbg))"
    by blast
  from decode_candidate_Some [OF d] obtain deltas where
    sel: "sel < length ?cd" and
    dbg: "dbg = \<lparr>detection_candidates = ?cd, anchor_candidates = ?ca, selected_box_id = sel\<rparr>" and
    r: "reshape2 (reg_kps (?cd ! sel)) = Inr deltas" and
    k: "keypoints = map (vadd (vscale (?ca ! sel) (Fin 256))) deltas"
    by blast
  from sel have s: "sel < length (passing out_clf)"
    by simp
  with r k have "reshape2 (reg_kps (out_reg ! (passing out_clf ! sel))) = Inr deltas"
    "keypoints = map (vadd (vscale (anchors self ! (passing out_clf ! sel)) (Fin 256))) deltas"
    by simp_all
  with len n s dbg show ?thesis
    by auto
qed

lemma example_select:
  "select_candidate example_nms (example_detector (Fin 1)) [example_row] [Fin 1] = 
   Inr (Some ([(Fin 128, Fin (1292 / 10)), (Fin 128, Fin (1592 / 10)), (Fin 158, Fin (1292 / 10))],
     [(Fin 128, Fin 128), (Fin 133, Fin 133), (Fin 128, Fin 129), (Fin 131, Fin 131),
      (Fin 132, Fin 132), (Fin 134, Fin 134), (Fin 135, Fin 135)],
     \<lparr>detection_candidates = [example_row], anchor_candidates = [(Fin (1 / 2), Fin (1 / 2))],
      selected_box_id = 0\<rparr>))"
  by (simp add: select_candidate_def passes_def [symmetric] passes_Fin mask_select_def
      example_detector_def BlazePalm_init_def example_nms_def non_max_suppression_fast_def indexed_def
      survivors_def moved_boxes_def py_index_def decode_candidate_def example_row_def
      vscale_def vadd_def vsub_def vdiv_def py_max_def get_triangle_def linalg_norm_def
      vecmat_def transpose2_def R90_def Let_def)

lemma example_detect:
  "detect_hand example_nms (example_detector (Fin 1)) example_tensor = 
   Inr (Some ([(Fin 128, Fin (1292 / 10)), (Fin 128, Fin (1592 / 10)), (Fin 158, Fin (1292 / 10))],
     [(Fin 128, Fin 128), (Fin 133, Fin 133), (Fin 128, Fin 129), (Fin 131, Fin 131),
      (Fin 132, Fin 132), (Fin 134, Fin 134), (Fin 135, Fin 135)],
     \<lparr>detection_candidates = [example_row], anchor_candidates = [(Fin (1 / 2), Fin (1 / 2))],
      selected_box_id = 0\<rparr>))"
proof -
  have "interp_palm (example_detector (Fin 1)) example_tensor = Inr ([example_row], [Fin 1])"
    by (simp add: example_detector_def BlazePalm_init_def)
  then show ?thesis
    by (simp add: detect_hand_def example_tensor_ok example_select)
qed

lemma example_interp:
  "interp_palm (example_detector logit) t = Inr ([example_row], [logit])"
  by (simp add: example_detector_def BlazePalm_init_def)

lemma passing_example: "passing [Fin 1] = [0]"
  by (simp add: passing_def passes_Fin)

theorem filtered_rows_share_anchor_index_witness:
  "detection_candidates \<lparr>detection_candidates = [example_row],
      anchor_candidates = [(Fin (1 / 2), Fin (1 / 2))], selected_box_id = 0\<rparr>
     = map (\<lambda>i. [example_row] ! i) (passing [Fin 1]) \<and>
   anchor_candidates \<lparr>detection_candidates = [example_row],
      anchor_candidates = [(Fin (1 / 2), Fin (1 / 2))], selected_box_id = 0\<rparr>
     = map (\<lambda>i. anchors (example_detector (Fin 1)) ! i) (passing [Fin 1]) \<and>
   selected_box_id \<lparr>detection_candidates = [example_row],
      anchor_candidates = [(Fin (1 / 2), Fin (1 / 2))], selected_box_id = 0\<rparr>
     < length (passing [Fin 1])"
  using filtered_rows_share_anchor_index [OF example_interp example_detect]
  by blast

text \<open>
  C8. When \<open>detect_hand\<close> returns a detection, the boxes handed to suppression are,
  for every candidate \<open>j\<close>, the centre \<open>(dx, dy)\<close> plus the anchor times 256 with the
  width and height of the candidate unchanged; and the keypoints are the flat
  keypoint deltas of the selected row taken two by two, \<open>(x, y)\<close>, each added to the
  selected anchor times 256 (seven keypoints for fourteen deltas).
\<close>

theorem moved_centres_and_keypoints:
  assumes "interp_palm self img_norm = Inr (out_reg, out_clf)"
    and "detect_hand nms self img_norm = Inr (Some (source, keypoints, dbg))"
  shows "length (anchor_candidates dbg) = length (detection_candidates dbg) \<and>
    (\<exists>probabilities ids.
       nms (moved_boxes (detection_candidates dbg) (anchor_candidates dbg)) probabilities
         = Inr (selected_box_id dbg # ids)) \<and>
    (\<forall>j<length (detection_candidates dbg).
       moved_boxes (detection_candidates dbg) (anchor_candidates dbg) ! j =
         (reg_dx (detection_candidates dbg ! j) + fst (anchor_candidates dbg ! j) * Fin 256,
          reg_dy (detection_candidates dbg ! j) + snd (anchor_candidates dbg ! j) * Fin 256,
          reg_w (detection_candidates dbg ! j),
          reg_h (detection_candidates dbg ! j))) \<and>
    length (reg_kps (detection_candidates dbg ! selected_box_id dbg)) = 2 * length keypoints \<and>
    (\<forall>k<length keypoints.
       keypoints ! k =
         (fst (anchor_candidates dbg ! selected_box_id dbg) * Fin 256
            + reg_kps (detection_candidates dbg ! selected_box_id dbg) ! (2 * k),
          snd (anchor_candidates dbg ! selected_box_id dbg) * Fin 256
            + reg_kps (detection_candidates dbg ! selected_box_id dbg) ! (2 * k + 1)))"
proof -
  from assms have sc: "select_candidate nms self out_reg out_clf
      = Inr (Some (source, keypoints, dbg))"
    by (simp add: detect_hand_def split: option.splits)
  let ?cd = "map (\<lambda>i. out_reg ! i) (passing out_clf)"
  let ?ca = "map (\<lambda>i. anchors self ! i) (passing out_clf)"
  from select_candidate_Some [OF sc] obtain sel ids where
    n: "nms (moved_boxes ?cd ?ca) (map (\<lambda>i. sigm (out_clf ! i)) (passing out_clf))
       = Inr (sel # ids)" and
    d: "decode_candidate self ?cd ?ca sel = Inr (Some (source, keypoints, dbg))"
    by blast
  from decode_candidate_Some [OF d] obtain deltas where
    dbg: "dbg = \<lparr>detection_candidates = ?cd, anchor_candidates = ?ca, selected_box_id = sel\<rparr>" and
    r: "reshape2 (reg_kps (?cd ! sel)) = Inr deltas" and
    k: "keypoints = map (vadd (vscale (?ca ! sel) (Fin 256))) deltas"
    by blast
  have cds: "detection_candidates dbg = ?cd" "anchor_candidates dbg = ?ca"
    "selected_box_id dbg = sel"
    by (simp_all add: dbg)
  have len: "length (anchor_candidates dbg) = length (detection_candidates dbg)"
    by (simp add: cds)
  from reshape2_pairs [OF r] have
    rl: "length (reg_kps (?cd ! sel)) = 2 * length deltas" and
    rn: "\<forall>k<length deltas. deltas ! k = (reg_kps (?cd ! sel) ! (2 * k), reg_kps (?cd ! sel) ! (2 * k + 1))"
    by simp_all
  have kl: "length keypoints = length deltas"
    by (simp add: k)
  have kn: "\<forall>j<length keypoints.
       keypoints ! j =
         (fst (?ca ! sel) * Fin 256 + reg_kps (?cd ! sel) ! (2 * j),
          snd (?ca ! sel) * Fin 256 + reg_kps (?cd ! sel) ! (2 * j + 1))"
    using rn by (simp add: k vadd_def vscale_def)
  have mb: "\<forall>j<length (detection_candidates dbg).
       moved_boxes (detection_candidates dbg) (anchor_candidates dbg) ! j =
         (reg_dx (detection_candidates dbg ! j) + fst (anchor_candidates dbg ! j) * Fin 256,
          reg_dy (detection_candidates dbg ! j) + snd (anchor_candidates dbg ! j) * Fin 256,
          reg_w (detection_candidates dbg ! j),
          reg_h (detection_candidates dbg ! j))"
    using moved_boxes_nth [OF len] by blast
  from n have "\<exists>probabilities ids.
       nms (moved_boxes (detection_candidates dbg) (anchor_candidates dbg)) probabilities
         = Inr (selected_box_id dbg # ids)"
    unfolding cds by blast
  with len mb rl kl kn show ?thesis
    unfolding cds by simp
qed

theorem moved_centres_and_keypoints_witness:
  "moved_boxes [example_row] [(Fin (1 / 2), Fin (1 / 2))] ! 0 = (Fin 129, Fin 130, Fin 10, Fin 20) \<and>
   length (reg_kps example_row) = 2 * 7 \<and>
   Fin (1 / 2) * Fin 256 + reg_kps example_row ! (2 * 2 + 1) = Fin 129"
proof -
  let ?dbg = "\<lparr>detection_candidates = [example_row],
      anchor_candidates = [(Fin (1 / 2), Fin (1 / 2))], selected_box_id = 0\<rparr>"
  let ?kps = "[(Fin 128, Fin 128), (Fin 133, Fin 133), (Fin 128, Fin 129), (Fin 131, Fin 131),
      (Fin 132, Fin 132), (Fin 134, Fin 134), (Fin 135, Fin 135)]"
  note m = moved_centres_and_keypoints [OF example_interp example_detect]
  from m have "\<forall>j<length (detection_candidates ?dbg).
       moved_boxes (detection_candidates ?dbg) (anchor_candidates ?dbg) ! j =
         (reg_dx (detection_candidates ?dbg ! j) + fst (anchor_candidates ?dbg ! j) * Fin 256,
          reg_dy (detection_candidates ?dbg ! j) + snd (anchor_candidates ?dbg ! j) * Fin 256,
          reg_w (detection_candidates ?dbg ! j),
          reg_h (detection_candidates ?dbg ! j))"
    by blast
  then have a: "moved_boxes [example_row] [(Fin (1 / 2), Fin (1 / 2))] ! 0
      = (Fin 129, Fin 130, Fin 10, Fin 20)"
    by (simp add: example_row_def)
  from m have "length (reg_kps (detection_candidates ?dbg ! selected_box_id ?dbg))
      = 2 * length ?kps"
    by blast
  then have b: "length (reg_kps example_row) = 2 * 7"
    by simp
  from m have "\<forall>k<length ?kps.
       ?kps ! k =
         (fst (anchor_candidates ?dbg ! selected_box_id ?dbg) * Fin 256
            + reg_kps (detection_candidates ?dbg ! selected_box_id ?dbg) ! (2 * k),
          snd (anchor_candidates ?dbg ! selected_box_id ?dbg) * Fin 256
            + reg_kps (detection_candidates ?dbg ! selected_box_id ?dbg) ! (2 * k + 1))"
    by blast
  from this [rule_format, of 2]
  have c: "Fin (1 / 2) * Fin 256 + reg_kps example_row ! (2 * 2 + 1) = Fin 129"
    by (simp add: example_row_def)
  from a b c show ?thesis
    by blast
qed

section \<open>Properties of the triangle\<close>

lemma py_max_Fin: "py_max (Fin a) (Fin b) = Fin (max a b)"
  by (simp add: py_max_def max_def)

lemma get_triangle_Fin:
  assumes "x0 \<noteq> x2 \<or> y0 \<noteq> y2"
  shows "get_triangle (Fin x0, Fin y0) (Fin x2, Fin y2) (Fin s) =
    [(Fin x2, Fin y2),
     (Fin (x2 + (x2 - x0) / sqrt ((x2 - x0) * (x2 - x0) + (y2 - y0) * (y2 - y0)) * s),
      Fin (y2 + (y2 - y0) / sqrt ((x2 - x0) * (x2 - x0) + (y2 - y0) * (y2 - y0)) * s)),
     (Fin (x2 + (y2 - y0) / sqrt ((x2 - x0) * (x2 - x0) + (y2 - y0) * (y2 - y0)) * s),
      Fin (y2 - (x2 - x0) / sqrt ((x2 - x0) * (x2 - x0) + (y2 - y0) * (y2 - y0)) * s))]"
proof -
  let ?q = "(x2 - x0) * (x2 - x0) + (y2 - y0) * (y2 - y0)"
  have "0 < ?q"
    using assms by (auto simp: sum_squares_gt_zero_iff)
  then have "0 < sqrt ?q"
    by (rule real_sqrt_gt_zero)
  with \<open>0 < ?q\<close> have "\<not> ?q < 0" "sqrt ?q \<noteq> 0"
    by linarith+
  then show ?thesis
    by (auto simp: get_triangle_def vsub_def vdiv_def linalg_norm_def vecmat_def transpose2_def
        R90_def vadd_def vscale_def Let_def)
qed

lemma get_triangle_degenerate:
  "get_triangle (Fin x, Fin y) (Fin x, Fin y) s = [(Fin x, Fin y), (NaN, NaN), (NaN, NaN)]"
  by (simp add: get_triangle_def vsub_def vdiv_def linalg_norm_def vecmat_def transpose2_def
        R90_def vadd_def vscale_def Let_def inf_of_sign_def)

text \<open>
  C3. What the code does when the wrist keypoint and the middle-finger keypoint
  coincide: \<open>_get_triangle\<close> divides the zero vector by its zero norm, which in NumPy
  is NaN and no exception, so the second and third point of the triangle are NaN, and
  \<open>detect_hand\<close> returns that triangle as an ordinary result. No error of any kind is
  raised.
\<close>

theorem coincident_keypoints_give_nan:
  "get_triangle (Fin x, Fin y) (Fin x, Fin y) s = [(Fin x, Fin y), (NaN, NaN), (NaN, NaN)] \<and>
   detect_hand example_nms degenerate_detector example_tensor =
     Inr (Some ([(Fin 128, Fin 128), (NaN, NaN), (NaN, NaN)],
       [(Fin 128, Fin 128), (Fin 133, Fin 133), (Fin 128, Fin 128), (Fin 131, Fin 131),
        (Fin 132, Fin 132), (Fin 134, Fin 134), (Fin 135, Fin 135)],
       \<lparr>detection_candidates = [degenerate_row],
        anchor_candidates = [(Fin (1 / 2), Fin (1 / 2))], selected_box_id = 0\<rparr>))"
proof
  show "get_triangle (Fin x, Fin y) (Fin x, Fin y) s = [(Fin x, Fin y), (NaN, NaN), (NaN, NaN)]"
    by (rule get_triangle_degenerate)
  have "select_candidate example_nms degenerate_detector [degenerate_row] [Fin 1] =
     Inr (Some ([(Fin 128, Fin 128), (NaN, NaN), (NaN, NaN)],
       [(Fin 128, Fin 128), (Fin 133, Fin 133), (Fin 128, Fin 128), (Fin 131, Fin 131),
        (Fin 132, Fin 132), (Fin 134, Fin 134), (Fin 135, Fin 135)],
       \<lparr>detection_candidates = [degenerate_row],
        anchor_candidates = [(Fin (1 / 2), Fin (1 / 2))], selected_box_id = 0\<rparr>))"
    by (simp add: select_candidate_def passes_def [symmetric] passes_Fin mask_select_def
      degenerate_detector_def BlazePalm_init_def example_nms_def non_max_suppression_fast_def indexed_def
      survivors_def moved_boxes_def py_index_def decode_candidate_def degenerate_row_def
      vscale_def vadd_def vsub_def get_triangle_degenerate Let_def)
  then show "detect_hand example_nms degenerate_detector example_tensor =
     Inr (Some ([(Fin 128, Fin 128), (NaN, NaN), (NaN, NaN)],
       [(Fin 128, Fin 128), (Fin 133, Fin 133), (Fin 128, Fin 128), (Fin 131, Fin 131),
        (Fin 132, Fin 132), (Fin 134, Fin 134), (Fin 135, Fin 135)],
       \<lparr>detection_candidates = [degenerate_row],
        anchor_candidates = [(Fin (1 / 2), Fin (1 / 2))], selected_box_id = 0\<rparr>))"
    by (simp add: detect_hand_def example_tensor_ok degenerate_detector_def BlazePalm_init_def)
qed

lemma detect_hand_Some:
  assumes "detect_hand nms self img_norm = Inr (Some r)"
  shows "\<exists>out_reg out_clf. interp_palm self img_norm = Inr (out_reg, out_clf) \<and>
    select_candidate nms self out_reg out_clf = Inr (Some r)"
  using assms by (auto simp: detect_hand_def split: option.splits sum.splits)

lemma scaled_direction:
  fixes dx dy s :: real
  assumes "dx \<noteq> 0 \<or> dy \<noteq> 0"
  defines "n \<equiv> sqrt (dx * dx + dy * dy)"
  shows "sqrt ((dx / n * s)\<^sup>2 + (dy / n * s)\<^sup>2) = \<bar>s\<bar>"
proof -
  have q: "0 < dx * dx + dy * dy"
    using assms(1) by (auto simp: sum_squares_gt_zero_iff)
  then have n: "0 < n" "n\<^sup>2 = dx * dx + dy * dy"
    by (simp_all add: n_def)
  have "(dx / n * s)\<^sup>2 + (dy / n * s)\<^sup>2 = (dx * dx + dy * dy) / n\<^sup>2 * s\<^sup>2"
    by (simp add: power2_eq_square add_divide_distrib algebra_simps)
  also have "\<dots> = s\<^sup>2"
  proof -
    from q have "dx * dx + dy * dy \<noteq> 0"
      by linarith
    then have "(dx * dx + dy * dy) / (dx * dx + dy * dy) = 1"
      by (rule divide_self)
    then show ?thesis
      by (simp only: n(2) mult_1)
  qed
  finally show ?thesis
    by simp
qed

lemma same_orientation:
  fixes dx dy n s :: real
  assumes "0 \<le> n"
  shows "0 \<le> s * (dx / n * s * dx + dy / n * s * dy)"
proof -
  have "s * (dx / n * s * dx + dy / n * s * dy) = (s * dx)\<^sup>2 / n + (s * dy)\<^sup>2 / n"
    by (simp add: power2_eq_square algebra_simps)
  also have "0 \<le> \<dots>"
    using assms by simp
  finally show ?thesis .
qed

text \<open>
  C4. For a detector built with the default arguments, whenever \<open>detect_hand\<close>
  returns a detection whose keypoints 0 (wrist) and 2 (middle-finger base) are finite
  and distinct and whose width and height are finite, the source triangle is
  \<open>[P, P + u, P + rot u]\<close> where \<open>u\<close> is the unit vector from the wrist to the
  middle-finger base times \<open>side = max w h * 1.5\<close> (so \<open>u\<close> has length \<open>\<bar>side\<bar>\<close>, is
  parallel to the wrist-to-middle-finger vector and, for a positive side, points the
  same way), \<open>rot (a, b) = (b, - a)\<close> is the rotation by 90 degrees, and the corner
  \<open>P\<close> is the middle-finger base shifted by 0.2 times the wrist-to-middle-finger
  vector.
\<close>

theorem oriented_frame_of_winner:
  fixes x0 y0 x2 y2 w h :: real
  assumes det: "detect_hand nms (BlazePalm_init anchor_table interp) img_norm
      = Inr (Some (source, keypoints, dbg))"
    and kp0: "keypoints ! 0 = (Fin x0, Fin y0)"
    and kp2: "keypoints ! 2 = (Fin x2, Fin y2)"
    and ne: "x0 \<noteq> x2 \<or> y0 \<noteq> y2"
    and w: "reg_w (detection_candidates dbg ! selected_box_id dbg) = Fin w"
    and h: "reg_h (detection_candidates dbg ! selected_box_id dbg) = Fin h"
  defines "n \<equiv> sqrt ((x2 - x0) * (x2 - x0) + (y2 - y0) * (y2 - y0))"
    and "side \<equiv> max w h * (15 / 10)"
  defines "ux \<equiv> (x2 - x0) / n * side"
    and "uy \<equiv> (y2 - y0) / n * side"
    and "px \<equiv> x2 + (x2 - x0) * (2 / 10)"
    and "py \<equiv> y2 + (y2 - y0) * (2 / 10)"
  shows "source = [(Fin px, Fin py), (Fin (px + ux), Fin (py + uy)), (Fin (px + uy), Fin (py - ux))] \<and>
    sqrt (ux\<^sup>2 + uy\<^sup>2) = \<bar>side\<bar> \<and>
    ux * (y2 - y0) = uy * (x2 - x0) \<and>
    0 \<le> side * (ux * (x2 - x0) + uy * (y2 - y0))"
proof -
  let ?self = "BlazePalm_init anchor_table interp"
  from detect_hand_Some [OF det] obtain out_reg out_clf where
    "select_candidate nms ?self out_reg out_clf = Inr (Some (source, keypoints, dbg))"
    by blast
  from select_candidate_Some [OF this] obtain sel cd ca where
    "decode_candidate ?self cd ca sel = Inr (Some (source, keypoints, dbg))"
    by blast
  from decode_candidate_Some [OF this] have
    dbg: "dbg = \<lparr>detection_candidates = cd, anchor_candidates = ca, selected_box_id = sel\<rparr>" and
    src: "source = map (\<lambda>p. vsub p (vscale (vsub (keypoints ! 0) (keypoints ! 2)) (box_shift ?self)))
          (get_triangle (keypoints ! 0) (keypoints ! 2)
             (py_max (reg_w (cd ! sel)) (reg_h (cd ! sel)) * box_enlarge ?self))"
    by blast+
  from w h have wh: "reg_w (cd ! sel) = Fin w" "reg_h (cd ! sel) = Fin h"
    by (simp_all add: dbg)
  have side: "py_max (reg_w (cd ! sel)) (reg_h (cd ! sel)) * box_enlarge ?self = Fin side"
    by (simp add: wh py_max_Fin BlazePalm_init_def side_def)
  have "source = [(Fin px, Fin py), (Fin (px + ux), Fin (py + uy)), (Fin (px + uy), Fin (py - ux))]"
    unfolding src side kp0 kp2 get_triangle_Fin [OF ne]
    by (simp add: vsub_def vscale_def BlazePalm_init_def px_def py_def ux_def uy_def n_def
        field_simps)
  moreover have "sqrt (ux\<^sup>2 + uy\<^sup>2) = \<bar>side\<bar>"
    unfolding ux_def uy_def n_def using ne by (intro scaled_direction) auto
  moreover have n0: "0 \<le> n"
    by (simp add: n_def)
  have "ux * (y2 - y0) = uy * (x2 - x0)"
    by (simp add: ux_def uy_def)
  moreover have "0 \<le> side * (ux * (x2 - x0) + uy * (y2 - y0))"
    unfolding ux_def uy_def using n0 by (rule same_orientation)
  ultimately show ?thesis
    by blast
qed

theorem oriented_frame_of_winner_witness:
  "detect_hand example_nms (example_detector (Fin 1)) example_tensor =
     Inr (Some ([(Fin 128, Fin (1292 / 10)), (Fin 128, Fin (1592 / 10)), (Fin 158, Fin (1292 / 10))],
       [(Fin 128, Fin 128), (Fin 133, Fin 133), (Fin 128, Fin 129), (Fin 131, Fin 131),
        (Fin 132, Fin 132), (Fin 134, Fin 134), (Fin 135, Fin 135)],
       \<lparr>detection_candidates = [example_row], anchor_candidates = [(Fin (1 / 2), Fin (1 / 2))],
        selected_box_id = 0\<rparr>)) \<and>
   [(Fin 128, Fin (1292 / 10)), (Fin 128, Fin (1592 / 10)), (Fin 158, Fin (1292 / 10))] =
     [(Fin 128, Fin (129 + 1 * (2 / 10))),
      (Fin (128 + 0), Fin (129 + 1 * (2 / 10) + 30)),
      (Fin (128 + 30), Fin (129 + 1 * (2 / 10) - 0))] \<and>
   sqrt ((0 / 1 * (max 10 20 * (15 / 10)))\<^sup>2 + (1 / 1 * (max 10 20 * (15 / 10)))\<^sup>2)
     = \<bar>max 10 20 * (15 / 10) :: real\<bar>"
proof -
  note t = oriented_frame_of_winner [OF example_detect [unfolded example_detector_def],
      of 128 128 128 129 10 20]
  have "sqrt ((0 / 1 * (max 10 20 * (15 / 10)))\<^sup>2 + (1 / 1 * (max 10 20 * (15 / 10)))\<^sup>2)
     = \<bar>max 10 20 * (15 / 10) :: real\<bar>"
    using t by (simp add: example_row_def)
  then show ?thesis
    using example_detect by simp
qed

section \<open>Properties of the affine transform\<close>

lemma getAffineTransform_Fin:
  assumes "tri_det (x0, y0) (x1, y1) (x2, y2) \<noteq> 0"
  shows "getAffineTransform [(Fin x0, Fin y0), (Fin x1, Fin y1), (Fin x2, Fin y2)]
           [(Fin u0, Fin v0), (Fin u1, Fin v1), (Fin u2, Fin v2)] =
         Inr (take 2 (affine_rows (affine_solve [(x0, y0), (x1, y1), (x2, y2)]
                                      [(u0, v0), (u1, v1), (u2, v2)])))"
  using assms by (simp add: tri_det_def affine_solve_def Let_def)

lemma pad_rows:
  "zero_row2 (transpose (pad1 (transpose [[a, b, c], [d, e, f]]))) =
     Inr [[a, b, c], [d, e, f], [Fin 0, Fin 0, Fin 1]]"
  by (simp add: zero_row2_def pad1_def)

lemma linalg_inv_affine:
  assumes "a * e - b * d \<noteq> 0"
  shows "linalg_inv (affine_rows (a, b, c, d, e, f)) = Inr (affine_rows (affine_inverse (a, b, c, d, e, f)))"
  using assms by (simp add: Let_def)

lemma matmul_T_affine:
  "matmul_T [embed p] (affine_rows m) = [embed (affine_apply m p)]"
  by (cases m; cases p) (simp add: matmul_T_def dot_def embed_def algebra_simps)

lemma over_common:
  fixes k :: real
  shows "A / k * X + B / k * Y + C / k = (A * X + B * Y + C) / k"
  by (simp add: add_divide_distrib)

lemma over_common2:
  fixes k :: real
  assumes "k \<noteq> 0"
  shows "a * (P / k) + b * (Q / k) + c = (a * P + b * Q + c * k) / k"
  using assms by (simp add: add_divide_distrib)

lemma cancel_common:
  fixes k :: real
  assumes "k \<noteq> 0" "N = x * k"
  shows "N / k = x"
  using assms by simp

lemma affine_inverse_left:
  assumes "affine_det m \<noteq> 0"
  shows "affine_apply (affine_inverse m) (affine_apply m p) = p"
proof -
  obtain a b c d e f where m: "m = (a, b, c, d, e, f)"
    by (cases m)
  obtain x y where p: "p = (x, y)"
    by (cases p)
  define k where "k = a * e - b * d"
  from assms have k: "k \<noteq> 0"
    by (simp add: m k_def)
  have "e / k * (a * x + b * y + c) + - b / k * (d * x + e * y + f) + (b * f - c * e) / k = x"
    unfolding over_common using k by (rule cancel_common) (simp add: k_def algebra_simps)
  moreover have "- d / k * (a * x + b * y + c) + a / k * (d * x + e * y + f) + (c * d - a * f) / k = y"
    unfolding over_common using k by (rule cancel_common) (simp add: k_def algebra_simps)
  ultimately show ?thesis
    by (simp add: m p k_def)
qed

lemma affine_inverse_right:
  assumes "affine_det m \<noteq> 0"
  shows "affine_apply m (affine_apply (affine_inverse m) p) = p"
proof -
  obtain a b c d e f where m: "m = (a, b, c, d, e, f)"
    by (cases m)
  obtain x y where p: "p = (x, y)"
    by (cases p)
  define k where "k = a * e - b * d"
  from assms have k: "k \<noteq> 0"
    by (simp add: m k_def)
  have "a * ((e * x + - b * y + (b * f - c * e)) / k)
      + b * ((- d * x + a * y + (c * d - a * f)) / k) + c
      = (a * (e * x + - b * y + (b * f - c * e)) + b * (- d * x + a * y + (c * d - a * f)) + c * k) / k"
    using k by (rule over_common2)
  also have "\<dots> = x"
    using k by (rule cancel_common) (simp add: k_def algebra_simps)
  finally have 1: "a * (e / k * x + - b / k * y + (b * f - c * e) / k)
      + b * (- d / k * x + a / k * y + (c * d - a * f) / k) + c = x"
    unfolding over_common .
  have "d * ((e * x + - b * y + (b * f - c * e)) / k)
      + e * ((- d * x + a * y + (c * d - a * f)) / k) + f
      = (d * (e * x + - b * y + (b * f - c * e)) + e * (- d * x + a * y + (c * d - a * f)) + f * k) / k"
    using k by (rule over_common2)
  also have "\<dots> = y"
    using k by (rule cancel_common) (simp add: k_def algebra_simps)
  finally have 2: "d * (e / k * x + - b / k * y + (b * f - c * e) / k)
      + e * (- d / k * x + a / k * y + (c * d - a * f) / k) + f = y"
    unfolding over_common .
  from 1 2 show ?thesis
    by (simp add: m p k_def)
qed

lemma cramer_row:
  fixes D x0 y0 x1 y1 x2 y2 u0 u1 u2 :: real
  assumes D: "D \<noteq> 0"
    and Dd: "D = x0 * (y1 - y2) - y0 * (x1 - x2) + (x1 * y2 - x2 * y1)"
  defines "a \<equiv> (u0 * (y1 - y2) + u1 * (y2 - y0) + u2 * (y0 - y1)) / D"
    and "b \<equiv> (u0 * (x2 - x1) + u1 * (x0 - x2) + u2 * (x1 - x0)) / D"
    and "c \<equiv> (u0 * (x1 * y2 - x2 * y1) + u1 * (x2 * y0 - x0 * y2) + u2 * (x0 * y1 - x1 * y0)) / D"
  shows "a * x0 + b * y0 + c = u0" "a * x1 + b * y1 + c = u1" "a * x2 + b * y2 + c = u2"
proof -
  show "a * x0 + b * y0 + c = u0"
    unfolding a_def b_def c_def over_common using D
    by (rule cancel_common) (simp add: Dd algebra_simps)
  show "a * x1 + b * y1 + c = u1"
    unfolding a_def b_def c_def over_common using D
    by (rule cancel_common) (simp add: Dd algebra_simps)
  show "a * x2 + b * y2 + c = u2"
    unfolding a_def b_def c_def over_common using D
    by (rule cancel_common) (simp add: Dd algebra_simps)
qed

lemma affine_solve_maps:
  assumes "tri_det (x0, y0) (x1, y1) (x2, y2) \<noteq> 0"
  shows "affine_apply (affine_solve [(x0, y0), (x1, y1), (x2, y2)] [(u0, v0), (u1, v1), (u2, v2)])
           (x0, y0) = (u0, v0)"
    and "affine_apply (affine_solve [(x0, y0), (x1, y1), (x2, y2)] [(u0, v0), (u1, v1), (u2, v2)])
           (x1, y1) = (u1, v1)"
    and "affine_apply (affine_solve [(x0, y0), (x1, y1), (x2, y2)] [(u0, v0), (u1, v1), (u2, v2)])
           (x2, y2) = (u2, v2)"
proof -
  define D where "D = tri_det (x0, y0) (x1, y1) (x2, y2)"
  have Dd: "D = x0 * (y1 - y2) - y0 * (x1 - x2) + (x1 * y2 - x2 * y1)"
    by (simp add: D_def tri_det_def)
  from assms have D: "D \<noteq> 0"
    by (simp add: D_def)
  note u = cramer_row [OF D Dd, of u0 u1 u2] and v = cramer_row [OF D Dd, of v0 v1 v2]
  show "affine_apply (affine_solve [(x0, y0), (x1, y1), (x2, y2)] [(u0, v0), (u1, v1), (u2, v2)])
           (x0, y0) = (u0, v0)"
    using u(1) v(1) by (simp add: affine_solve_def D_def [symmetric])
  show "affine_apply (affine_solve [(x0, y0), (x1, y1), (x2, y2)] [(u0, v0), (u1, v1), (u2, v2)])
           (x1, y1) = (u1, v1)"
    using u(2) v(2) by (simp add: affine_solve_def D_def [symmetric])
  show "affine_apply (affine_solve [(x0, y0), (x1, y1), (x2, y2)] [(u0, v0), (u1, v1), (u2, v2)])
           (x2, y2) = (u2, v2)"
    using u(3) v(3) by (simp add: affine_solve_def D_def [symmetric])
qed

lemma tri_det_affine:
  "tri_det (affine_apply m p0) (affine_apply m p1) (affine_apply m p2)
     = affine_det m * tri_det p0 p1 p2"
  by (cases m; cases p0; cases p1; cases p2) (simp add: tri_det_def algebra_simps)

lemma matmul_T_embed:
  "matmul_T (map embed ps) (affine_rows m) = map (\<lambda>p. embed (affine_apply m p)) ps"
proof -
  have "map (dot (embed p)) (affine_rows m) = embed (affine_apply m p)" for p
    using matmul_T_affine [of p m] by (simp add: matmul_T_def)
  then show ?thesis
    by (simp add: matmul_T_def comp_def)
qed

lemma target_box_embed:
  "target_box = map embed [(0, 0), (256, 0), (256, 256), (0, 256)]"
  by (simp add: target_box_def embed_def)

text \<open>
  C6. For three finite source points that are not on one line, the transform
  recovered by \<open>getAffineTransform\<close>, padded to the square matrix \<open>Mtr\<close>, has the
  inverse \<open>Minv\<close> (no error is raised), and: \<open>Mtr\<close> sends the source triangle to the
  target triangle; \<open>Minv\<close> sends the target triangle back to the original triangle
  points; projecting the canonical target box through \<open>Minv\<close> and then through \<open>Mtr\<close>
  reproduces the target box; and \<open>Mtr\<close> composed with \<open>Minv\<close>, in either order, is the
  identity on every embedded point \<open>(x, y, 1)\<close>. In exact arithmetic the equalities
  are exact.
\<close>

theorem affine_round_trip:
  fixes x0 y0 x1 y1 x2 y2 :: real
  assumes "tri_det (x0, y0) (x1, y1) (x2, y2) \<noteq> 0"
  shows "\<exists>M Mtr Minv.
    getAffineTransform [(Fin x0, Fin y0), (Fin x1, Fin y1), (Fin x2, Fin y2)] target_triangle
      = Inr M \<and>
    zero_row2 (transpose (pad1 (transpose M))) = Inr Mtr \<and>
    linalg_inv Mtr = Inr Minv \<and>
    matmul_T [embed (x0, y0), embed (x1, y1), embed (x2, y2)] Mtr
      = [embed (128, 128), embed (128, 0), embed (0, 128)] \<and>
    matmul_T [embed (128, 128), embed (128, 0), embed (0, 128)] Minv
      = [embed (x0, y0), embed (x1, y1), embed (x2, y2)] \<and>
    matmul_T (matmul_T target_box Minv) Mtr = target_box \<and>
    (\<forall>p. matmul_T (matmul_T [embed p] Mtr) Minv = [embed p]) \<and>
    (\<forall>p. matmul_T (matmul_T [embed p] Minv) Mtr = [embed p])"
proof -
  define A where "A = affine_solve [(x0, y0), (x1, y1), (x2, y2)] [(128, 128), (128, 0), (0, 128)]"
  obtain a b c d e f where A: "A = (a, b, c, d, e, f)"
    by (cases A)
  note maps = affine_solve_maps [OF assms, of 128 128 128 0 0 128, folded A_def]
  have "tri_det (affine_apply A (x0, y0)) (affine_apply A (x1, y1)) (affine_apply A (x2, y2))
      = affine_det A * tri_det (x0, y0) (x1, y1) (x2, y2)"
    by (rule tri_det_affine)
  then have "affine_det A * tri_det (x0, y0) (x1, y1) (x2, y2) = tri_det (128, 128) (128, 0) (0, 128)"
    by (simp add: maps)
  moreover have "tri_det (128, 128) (128, 0) (0, 128) \<noteq> 0"
    by (simp add: tri_det_def)
  ultimately have det: "affine_det A \<noteq> 0"
    by auto
  then have k: "a * e - b * d \<noteq> 0"
    by (simp add: A)
  have 1: "getAffineTransform [(Fin x0, Fin y0), (Fin x1, Fin y1), (Fin x2, Fin y2)] target_triangle
      = Inr (take 2 (affine_rows A))"
    unfolding target_triangle_def A_def by (rule getAffineTransform_Fin [OF assms])
  have 2: "zero_row2 (transpose (pad1 (transpose (take 2 (affine_rows A))))) = Inr (affine_rows A)"
    using pad_rows [of "Fin a" "Fin b" "Fin c" "Fin d" "Fin e" "Fin f"] by (simp add: A)
  have 3: "linalg_inv (affine_rows A) = Inr (affine_rows (affine_inverse A))"
    unfolding A by (rule linalg_inv_affine [OF k])
  have 4: "matmul_T [embed (x0, y0), embed (x1, y1), embed (x2, y2)] (affine_rows A)
      = [embed (128, 128), embed (128, 0), embed (0, 128)]"
    using matmul_T_embed [of "[(x0, y0), (x1, y1), (x2, y2)]" A] by (simp add: maps)
  have inv_maps: "affine_apply (affine_inverse A) (128, 128) = (x0, y0)"
    "affine_apply (affine_inverse A) (128, 0) = (x1, y1)"
    "affine_apply (affine_inverse A) (0, 128) = (x2, y2)"
    using affine_inverse_left [OF det, of "(x0, y0)"] affine_inverse_left [OF det, of "(x1, y1)"]
      affine_inverse_left [OF det, of "(x2, y2)"]
    by (simp_all add: maps)
  have 5: "matmul_T [embed (128, 128), embed (128, 0), embed (0, 128)] (affine_rows (affine_inverse A))
      = [embed (x0, y0), embed (x1, y1), embed (x2, y2)]"
    using matmul_T_embed [of "[(128, 128), (128, 0), (0, 128)]" "affine_inverse A"]
    by (simp add: inv_maps)
  have 6: "matmul_T (matmul_T target_box (affine_rows (affine_inverse A))) (affine_rows A) = target_box"
    unfolding target_box_embed matmul_T_embed
    using matmul_T_embed [of "map (affine_apply (affine_inverse A)) [(0, 0), (256, 0), (256, 256), (0, 256)]" A]
    by (simp add: comp_def affine_inverse_right [OF det])
  have 7: "matmul_T (matmul_T [embed p] (affine_rows A)) (affine_rows (affine_inverse A)) = [embed p]" for p
    by (simp add: matmul_T_affine affine_inverse_left [OF det])
  have 8: "matmul_T (matmul_T [embed p] (affine_rows (affine_inverse A))) (affine_rows A) = [embed p]" for p
    by (simp add: matmul_T_affine affine_inverse_right [OF det])
  from 1 2 3 4 5 6 7 8 show ?thesis
    by blast
qed

theorem affine_round_trip_witness:
  "tri_det (256, 2584 / 10) (256, 3184 / 10) (316, 2584 / 10) \<noteq> 0 \<and>
   (\<exists>M Mtr Minv.
    getAffineTransform
      [(Fin 256, Fin (2584 / 10)), (Fin 256, Fin (3184 / 10)), (Fin 316, Fin (2584 / 10))]
      target_triangle = Inr M \<and>
    zero_row2 (transpose (pad1 (transpose M))) = Inr Mtr \<and>
    linalg_inv Mtr = Inr Minv \<and>
    matmul_T [embed (256, 2584 / 10), embed (256, 3184 / 10), embed (316, 2584 / 10)] Mtr
      = [embed (128, 128), embed (128, 0), embed (0, 128)] \<and>
    matmul_T [embed (128, 128), embed (128, 0), embed (0, 128)] Minv
      = [embed (256, 2584 / 10), embed (256, 3184 / 10), embed (316, 2584 / 10)] \<and>
    matmul_T (matmul_T target_box Minv) Mtr = target_box \<and>
    (\<forall>p. matmul_T (matmul_T [embed p] Mtr) Minv = [embed p]) \<and>
    (\<forall>p. matmul_T (matmul_T [embed p] Minv) Mtr = [embed p]))"
proof
  show ne: "tri_det (256, 2584 / 10) (256, 3184 / 10) (316, 2584 / 10) \<noteq> 0"
    by (simp add: tri_det_def)
  show "\<exists>M Mtr Minv.
    getAffineTransform
      [(Fin 256, Fin (2584 / 10)), (Fin 256, Fin (3184 / 10)), (Fin 316, Fin (2584 / 10))]
      target_triangle = Inr M \<and>
    zero_row2 (transpose (pad1 (transpose M))) = Inr Mtr \<and>
    linalg_inv Mtr = Inr Minv \<and>
    matmul_T [embed (256, 2584 / 10), embed (256, 3184 / 10), embed (316, 2584 / 10)] Mtr
      = [embed (128, 128), embed (128, 0), embed (0, 128)] \<and>
    matmul_T [embed (128, 128), embed (128, 0), embed (0, 128)] Minv
      = [embed (256, 2584 / 10), embed (256, 3184 / 10), embed (316, 2584 / 10)] \<and>
    matmul_T (matmul_T target_box Minv) Mtr = target_box \<and>
    (\<forall>p. matmul_T (matmul_T [embed p] Mtr) Minv = [embed p]) \<and>
    (\<forall>p. matmul_T (matmul_T [embed p] Minv) Mtr = [embed p])"
    by (rule affine_round_trip [OF ne])
qed

section \<open>Properties of the returned box\<close>

lemma linalg_inv_rows: "linalg_inv m = Inr mi \<Longrightarrow> length mi = 3"
  by (induction m rule: linalg_inv.induct) (auto simp: Let_def split: if_splits)

lemma project_box_shape:
  assumes "project_box source scale pad = Inr box_orig"
  shows "length box_orig = 4 \<and> (\<forall>row\<in>set box_orig. length row = 2)"
proof -
  from assms obtain Minv where inv: "length Minv = 3" and
    b: "box_orig = map (\<lambda>row. map2 (-) row [Fin (real (snd pad)), Fin (real (fst pad))])
          (map (take 2) (matmul_T target_box Minv))"
    by (auto simp: project_box_def Let_def split: sum.splits dest: linalg_inv_rows)
  from inv b show ?thesis
    by (auto simp: matmul_T_def target_box_def)
qed

lemma py_index_take1: "py_index (take (Suc 0) ids) 0 = py_index ids 0"
  by (cases ids) (simp_all add: py_index_def)

lemma select_candidate_first_only:
  "select_candidate (first_only nms) self out_reg out_clf = select_candidate nms self out_reg out_clf"
  by (simp add: select_candidate_def first_only_def py_index_take1 Let_def split: sum.splits)

lemma detect_hand_first_only:
  "detect_hand (first_only nms) self img_norm = detect_hand nms self img_norm"
  by (simp add: detect_hand_def select_candidate_first_only
      split: option.splits sum.splits prod.splits)

lemma example_project:
  "project_box [(Fin 128, Fin (646 / 5)), (Fin 128, Fin (796 / 5)), (Fin 158, Fin (646 / 5))]
     (Fin 2) (0, 0) =
   Inr [[Fin 316, Fin (3184 / 10)], [Fin 196, Fin (3184 / 10)],
        [Fin 196, Fin (1984 / 10)], [Fin 316, Fin (1984 / 10)]]"
  by (simp add: project_box_def vscale_def target_triangle_def zero_row2_def pad1_def
      matmul_T_def dot_def target_box_def Let_def)

lemma example_pred_bbox:
  "pred_bbox example_nms example_resize (example_detector (Fin 1)) example_image =
   Inr (Some [[Fin 316, Fin (3184 / 10)], [Fin 196, Fin (3184 / 10)],
              [Fin 196, Fin (1984 / 10)], [Fin 316, Fin (1984 / 10)]])"
proof -
  have "foldr max (t_shape example_image) 0 = 512"
    by (simp add: example_image_def)
  then show ?thesis
    by (simp add: pred_bbox_def example_preprocess example_detect example_project)
qed

lemma affine_solve_target_det:
  assumes "tri_det (x0, y0) (x1, y1) (x2, y2) \<noteq> 0"
  shows "affine_det (affine_solve [(x0, y0), (x1, y1), (x2, y2)] [(128, 128), (128, 0), (0, 128)])
    \<noteq> 0"
proof -
  define A where "A = affine_solve [(x0, y0), (x1, y1), (x2, y2)] [(128, 128), (128, 0), (0, 128)]"
  note maps = affine_solve_maps [OF assms, of 128 128 128 0 0 128, folded A_def]
  have "tri_det (affine_apply A (x0, y0)) (affine_apply A (x1, y1)) (affine_apply A (x2, y2))
      = affine_det A * tri_det (x0, y0) (x1, y1) (x2, y2)"
    by (rule tri_det_affine)
  then have "affine_det A * tri_det (x0, y0) (x1, y1) (x2, y2) = tri_det (128, 128) (128, 0) (0, 128)"
    by (simp add: maps)
  moreover have "tri_det (128, 128) (128, 0) (0, 128) \<noteq> 0"
    by (simp add: tri_det_def)
  ultimately show ?thesis
    unfolding A_def by auto
qed

lemma project_box_Fin:
  assumes D: "tri_det (x0 * s, y0 * s) (x1 * s, y1 * s) (x2 * s, y2 * s) \<noteq> 0"
  defines "A \<equiv> affine_solve [(x0 * s, y0 * s), (x1 * s, y1 * s), (x2 * s, y2 * s)]
      [(128, 128), (128, 0), (0, 128)]"
  shows "project_box [(Fin x0, Fin y0), (Fin x1, Fin y1), (Fin x2, Fin y2)] (Fin s) pad =
     Inr (map (\<lambda>c. to_input pad (affine_apply (affine_inverse A) c)) canonical_corners)"
proof -
  obtain a b c d e f where A: "A = (a, b, c, d, e, f)"
    by (cases A)
  from affine_solve_target_det [OF D] have "affine_det A \<noteq> 0"
    by (simp add: A_def)
  then have k: "a * e - b * d \<noteq> 0"
    by (simp add: A)
  have 1: "getAffineTransform
      (map (\<lambda>p. vscale p (Fin s)) [(Fin x0, Fin y0), (Fin x1, Fin y1), (Fin x2, Fin y2)])
      target_triangle = Inr (take 2 (affine_rows A))"
    unfolding target_triangle_def A_def
    using getAffineTransform_Fin [OF D, of 128 128 128 0 0 128] by (simp add: vscale_def)
  have 2: "zero_row2 (transpose (pad1 (transpose (take 2 (affine_rows A))))) = Inr (affine_rows A)"
    using pad_rows [of "Fin a" "Fin b" "Fin c" "Fin d" "Fin e" "Fin f"] by (simp add: A)
  have 3: "linalg_inv (affine_rows A) = Inr (affine_rows (affine_inverse A))"
    unfolding A by (rule linalg_inv_affine [OF k])
  have 4: "matmul_T target_box (affine_rows (affine_inverse A))
      = map (\<lambda>p. embed (affine_apply (affine_inverse A) p)) canonical_corners"
    unfolding target_box_embed canonical_corners_def by (rule matmul_T_embed)
  have 5: "map2 (-) (take 2 (embed p)) [Fin (real (snd pad)), Fin (real (fst pad))] = to_input pad p"
    for p
    by (simp add: embed_def to_input_def)
  show ?thesis
    unfolding project_box_def 1 by (simp add: 2 3 4 5 comp_def)
qed

lemma preprocess_img_pad:
  assumes "t_shape img = [hh, ww, ch]" "preprocess_img pad_resize img = Inr (img_norm, pad)"
  shows "pad = (((max hh (max ww ch) - hh) mod 2 ^ 32) div 2,
                ((max hh (max ww ch) - ww) mod 2 ^ 32) div 2)"
  using assms by (auto simp: preprocess_img_def Let_def split: sum.splits)

text \<open>
  C2. Whenever \<open>pred_bbox\<close> (and \<open>__call__\<close>, which is \<open>pred_bbox\<close>) returns a box, it is
  one box of exactly four rows of two coordinates each; otherwise it returns the single
  "no detection" value (or raises). The result is the same when suppression's answer
  is cut down to its first index: however many candidates survive suppression, only the
  first one is decoded, and never a set of boxes is returned. The box is in the
  coordinates of the input image: for an image of shape \<open>(hh, ww, ch)\<close> whose detected
  triangle is finite and not degenerate, let \<open>s = max (hh, ww, ch) / 256\<close> and let \<open>A\<close>
  be the affine map that takes the triangle, scaled by \<open>s\<close> to the padded image, to the
  target triangle; then each corner of the box is the point of the padded image that
  \<open>A\<close> sends to the corresponding corner of the canonical 256 by 256 square, with the
  padding taken off: the padded columns \<open>(m - ww) div 2\<close> from \<open>x\<close> and the padded rows
  \<open>(m - hh) div 2\<close> from \<open>y\<close>.
\<close>

theorem pred_bbox_one_box_or_none:
  "(\<forall>box. pred_bbox nms pad_resize self img = Inr (Some box) \<longrightarrow>
      length box = 4 \<and> (\<forall>row\<in>set box. length row = 2)) \<and>
   pred_bbox (first_only nms) pad_resize self img = pred_bbox nms pad_resize self img \<and>
   call nms pad_resize self img = pred_bbox nms pad_resize self img \<and>
   (\<forall>hh ww ch img_norm pad x0 y0 x1 y1 x2 y2 keypoints dbg s A.
      t_shape img = [hh, ww, ch] \<longrightarrow>
      preprocess_img pad_resize img = Inr (img_norm, pad) \<longrightarrow>
      detect_hand nms self img_norm =
        Inr (Some ([(Fin x0, Fin y0), (Fin x1, Fin y1), (Fin x2, Fin y2)], keypoints, dbg)) \<longrightarrow>
      s = real (max hh (max ww ch)) / 256 \<longrightarrow>
      A = affine_solve [(x0 * s, y0 * s), (x1 * s, y1 * s), (x2 * s, y2 * s)]
            [(128, 128), (128, 0), (0, 128)] \<longrightarrow>
      tri_det (x0 * s, y0 * s) (x1 * s, y1 * s) (x2 * s, y2 * s) \<noteq> 0 \<longrightarrow>
      pad = (((max hh (max ww ch) - hh) mod 2 ^ 32) div 2,
             ((max hh (max ww ch) - ww) mod 2 ^ 32) div 2) \<and>
      affine_apply A (x0 * s, y0 * s) = (128, 128) \<and>
      affine_apply A (x1 * s, y1 * s) = (128, 0) \<and>
      affine_apply A (x2 * s, y2 * s) = (0, 128) \<and>
      (\<forall>c. affine_apply A (affine_apply (affine_inverse A) c) = c) \<and>
      pred_bbox nms pad_resize self img =
        Inr (Some (map (\<lambda>c. to_input pad (affine_apply (affine_inverse A) c)) canonical_corners)))"
proof -
  have "length box = 4 \<and> (\<forall>row\<in>set box. length row = 2)"
    if "pred_bbox nms pad_resize self img = Inr (Some box)" for box
  proof -
    from that obtain source scale pad where "project_box source scale pad = Inr box"
      by (auto simp: pred_bbox_def Let_def split: sum.splits option.splits prod.splits)
    then show ?thesis
      by (rule project_box_shape)
  qed
  moreover have "pred_bbox (first_only nms) pad_resize self img = pred_bbox nms pad_resize self img"
    unfolding pred_bbox_def detect_hand_first_only ..
  moreover have "call nms pad_resize self img = pred_bbox nms pad_resize self img"
    by (simp add: call_def)
  moreover have "pad = (((max hh (max ww ch) - hh) mod 2 ^ 32) div 2,
             ((max hh (max ww ch) - ww) mod 2 ^ 32) div 2) \<and>
      affine_apply A (x0 * s, y0 * s) = (128, 128) \<and>
      affine_apply A (x1 * s, y1 * s) = (128, 0) \<and>
      affine_apply A (x2 * s, y2 * s) = (0, 128) \<and>
      (\<forall>c. affine_apply A (affine_apply (affine_inverse A) c) = c) \<and>
      pred_bbox nms pad_resize self img =
        Inr (Some (map (\<lambda>c. to_input pad (affine_apply (affine_inverse A) c)) canonical_corners))"
    if sh: "t_shape img = [hh, ww, ch]"
      and pre: "preprocess_img pad_resize img = Inr (img_norm, pad)"
      and det: "detect_hand nms self img_norm =
        Inr (Some ([(Fin x0, Fin y0), (Fin x1, Fin y1), (Fin x2, Fin y2)], keypoints, dbg))"
      and s: "s = real (max hh (max ww ch)) / 256"
      and A: "A = affine_solve [(x0 * s, y0 * s), (x1 * s, y1 * s), (x2 * s, y2 * s)]
            [(128, 128), (128, 0), (0, 128)]"
      and D: "tri_det (x0 * s, y0 * s) (x1 * s, y1 * s) (x2 * s, y2 * s) \<noteq> 0"
    for hh ww ch img_norm pad x0 y0 x1 y1 x2 y2 keypoints dbg s A
  proof -
    note pad = preprocess_img_pad [OF sh pre]
    note maps = affine_solve_maps [OF D, of 128 128 128 0 0 128, folded A]
    from affine_solve_target_det [OF D] have dA: "affine_det A \<noteq> 0"
      by (simp add: A)
    have inv: "\<forall>c. affine_apply A (affine_apply (affine_inverse A) c) = c"
      using affine_inverse_right [OF dA] by blast
    have sc: "Fin (real (foldr max (t_shape img) 0) / 256) = Fin s"
      by (simp add: sh s)
    have "pred_bbox nms pad_resize self img =
        Inr (Some (map (\<lambda>c. to_input pad (affine_apply (affine_inverse A) c)) canonical_corners))"
      unfolding pred_bbox_def pre sc
      by (simp add: det project_box_Fin [OF D, folded A])
    with pad maps inv show ?thesis
      by blast
  qed
  ultimately show ?thesis
    by blast
qed

lemma sigm_less_iff: "(sigm (Fin a) < sigm (Fin b)) = (a < b)"
proof -
  have pa: "0 < 1 + exp (- a)" and pb: "0 < 1 + exp (- b)"
    by (simp_all add: add_pos_pos)
  have "(1 / (1 + exp (- a)) < 1 / (1 + exp (- b))) = (1 + exp (- b) < 1 + exp (- a))"
    using pa pb by (simp add: field_simps)
  also have "\<dots> = (a < b)"
    by simp
  finally show ?thesis
    by (simp add: sigm_Fin)
qed

lemma example_pair_nms:
  "example_nms
     (moved_boxes [example_row, example_row] [(Fin (1 / 2), Fin (1 / 2)), (Fin (1 / 4), Fin (1 / 4))])
     [sigm (Fin 2), sigm (Fin 1)] = Inr [0, 1]"
  by (simp add: example_nms_def non_max_suppression_fast_def indexed_def survivors_def
      moved_boxes_def sigm_less_iff)

lemma example_pair_detect:
  "detect_hand example_nms example_pair_detector example_tensor =
   Inr (Some ([(Fin 128, Fin (646 / 5)), (Fin 128, Fin (796 / 5)), (Fin 158, Fin (646 / 5))],
     [(Fin 128, Fin 128), (Fin 133, Fin 133), (Fin 128, Fin 129), (Fin 131, Fin 131),
      (Fin 132, Fin 132), (Fin 134, Fin 134), (Fin 135, Fin 135)],
     \<lparr>detection_candidates = [example_row, example_row],
      anchor_candidates = [(Fin (1 / 2), Fin (1 / 2)), (Fin (1 / 4), Fin (1 / 4))],
      selected_box_id = 0\<rparr>))"
proof -
  have "select_candidate example_nms example_pair_detector [example_row, example_row] [Fin 2, Fin 1] =
   Inr (Some ([(Fin 128, Fin (646 / 5)), (Fin 128, Fin (796 / 5)), (Fin 158, Fin (646 / 5))],
     [(Fin 128, Fin 128), (Fin 133, Fin 133), (Fin 128, Fin 129), (Fin 131, Fin 131),
      (Fin 132, Fin 132), (Fin 134, Fin 134), (Fin 135, Fin 135)],
     \<lparr>detection_candidates = [example_row, example_row],
      anchor_candidates = [(Fin (1 / 2), Fin (1 / 2)), (Fin (1 / 4), Fin (1 / 4))],
      selected_box_id = 0\<rparr>))"
    by (simp add: select_candidate_def passes_def [symmetric] passes_Fin mask_select_def
        example_pair_detector_def BlazePalm_init_def example_pair_nms py_index_def Let_def)
      (simp add: decode_candidate_def example_row_def py_index_def
        vscale_def vadd_def vsub_def vdiv_def py_max_def get_triangle_def linalg_norm_def
        vecmat_def transpose2_def R90_def Let_def)
  then show ?thesis
    by (simp add: detect_hand_def example_tensor_ok example_pair_detector_def BlazePalm_init_def)
qed

lemma example_wide_preprocess:
  "preprocess_img example_resize example_wide_image = Inr (example_tensor, (128, 0))"
  by (simp add: preprocess_img_def example_resize_def example_wide_image_def example_tensor_def
      im_normalize_def)

theorem pred_bbox_one_box_or_none_witness:
  "example_nms
     (moved_boxes [example_row, example_row] [(Fin (1 / 2), Fin (1 / 2)), (Fin (1 / 4), Fin (1 / 4))])
     [sigm (Fin 2), sigm (Fin 1)] = Inr [0, 1] \<and>
   preprocess_img example_resize example_wide_image = Inr (example_tensor, (128, 0)) \<and>
   pred_bbox example_nms example_resize example_pair_detector example_wide_image =
     Inr (Some [[Fin 316, Fin (952 / 5)], [Fin 196, Fin (952 / 5)],
                [Fin 196, Fin (352 / 5)], [Fin 316, Fin (352 / 5)]]) \<and>
   pred_bbox (first_only example_nms) example_resize example_pair_detector example_wide_image =
     pred_bbox example_nms example_resize example_pair_detector example_wide_image"
proof -
  note t = pred_bbox_one_box_or_none [of example_nms example_resize example_pair_detector
      example_wide_image]
  have sh: "t_shape example_wide_image = [256, 512, 3]"
    by (simp add: example_wide_image_def)
  have D: "tri_det (128 * (real (max 256 (max 512 3)) / 256), 646 / 5 * (real (max 256 (max 512 3)) / 256))
      (128 * (real (max 256 (max 512 3)) / 256), 796 / 5 * (real (max 256 (max 512 3)) / 256))
      (158 * (real (max 256 (max 512 3)) / 256), 646 / 5 * (real (max 256 (max 512 3)) / 256)) \<noteq> 0"
    by (simp add: tri_det_def)
  from t have "t_shape example_wide_image = [256, 512, 3] \<longrightarrow>
      preprocess_img example_resize example_wide_image = Inr (example_tensor, (128, 0)) \<longrightarrow>
      detect_hand example_nms example_pair_detector example_tensor =
        Inr (Some ([(Fin 128, Fin (646 / 5)), (Fin 128, Fin (796 / 5)), (Fin 158, Fin (646 / 5))],
          [(Fin 128, Fin 128), (Fin 133, Fin 133), (Fin 128, Fin 129), (Fin 131, Fin 131),
           (Fin 132, Fin 132), (Fin 134, Fin 134), (Fin 135, Fin 135)],
          \<lparr>detection_candidates = [example_row, example_row],
           anchor_candidates = [(Fin (1 / 2), Fin (1 / 2)), (Fin (1 / 4), Fin (1 / 4))],
           selected_box_id = 0\<rparr>)) \<longrightarrow>
      tri_det (128 * (real (max 256 (max 512 3)) / 256), 646 / 5 * (real (max 256 (max 512 3)) / 256))
        (128 * (real (max 256 (max 512 3)) / 256), 796 / 5 * (real (max 256 (max 512 3)) / 256))
        (158 * (real (max 256 (max 512 3)) / 256), 646 / 5 * (real (max 256 (max 512 3)) / 256)) \<noteq> 0 \<longrightarrow>
      pred_bbox example_nms example_resize example_pair_detector example_wide_image =
        Inr (Some (map (\<lambda>c. to_input (128, 0) (affine_apply (affine_inverse
          (affine_solve
            [(128 * (real (max 256 (max 512 3)) / 256), 646 / 5 * (real (max 256 (max 512 3)) / 256)),
             (128 * (real (max 256 (max 512 3)) / 256), 796 / 5 * (real (max 256 (max 512 3)) / 256)),
             (158 * (real (max 256 (max 512 3)) / 256), 646 / 5 * (real (max 256 (max 512 3)) / 256))]
            [(128, 128), (128, 0), (0, 128)])) c)) canonical_corners))"
    by blast
  with sh example_wide_preprocess example_pair_detect D
  have "pred_bbox example_nms example_resize example_pair_detector example_wide_image =
        Inr (Some (map (\<lambda>c. to_input (128, 0) (affine_apply (affine_inverse
          (affine_solve
            [(128 * (real (max 256 (max 512 3)) / 256), 646 / 5 * (real (max 256 (max 512 3)) / 256)),
             (128 * (real (max 256 (max 512 3)) / 256), 796 / 5 * (real (max 256 (max 512 3)) / 256)),
             (158 * (real (max 256 (max 512 3)) / 256), 646 / 5 * (real (max 256 (max 512 3)) / 256))]
            [(128, 128), (128, 0), (0, 128)])) c)) canonical_corners))"
    by blast
  then have b: "pred_bbox example_nms example_resize example_pair_detector example_wide_image =
     Inr (Some [[Fin 316, Fin (952 / 5)], [Fin 196, Fin (952 / 5)],
                [Fin 196, Fin (352 / 5)], [Fin 316, Fin (352 / 5)]])"
    by (simp add: affine_solve_def tri_det_def to_input_def canonical_corners_def)
  from t have "pred_bbox (first_only example_nms) example_resize example_pair_detector
      example_wide_image =
     pred_bbox example_nms example_resize example_pair_detector example_wide_image"
    by blast
  with example_pair_nms example_wide_preprocess b show ?thesis
    by blast
qed

end
